theory Spec2Isabelle
  imports Complex_Main "HOL-Library.Sublist"
begin

section \<open>JavaScript values, errors and strings\<close>

text \<open>
  The gateway of \<^verbatim>\<open>plugin/fs-handlers.js\<close> handles JavaScript values that come from the
  query string (strings or \<^verbatim>\<open>undefined\<close>) and from \<^verbatim>\<open>JSON.parse\<close> of a request body (any
  JSON value). \<open>jsval\<close> is the type of those values. A JavaScript string is modelled as the
  list of its UTF-8 bytes, a \<^verbatim>\<open>Buffer\<close> as a list of bytes, a number as a real (every finite
  double is one), a JSON object as the list of its own properties (keys distinct, as
  \<^verbatim>\<open>JSON.parse\<close> returns them).
\<close>

datatype jsval =
    JUndefined
  | JNull
  | JBool bool
  | JNum real
  | JStr string
  | JArr "jsval list"
  | JObj "(string \<times> jsval) list"

type_synonym bytes = "char list"

text \<open>
  A thrown exception is an \<^verbatim>\<open>Error\<close> object; the only thing the gateway ever reads from it is
  \<^verbatim>\<open>error.message\<close>.
\<close>

datatype exn = Error (message: string)

text \<open>\<^verbatim>\<open>s.startsWith('/')\<close>, \<^verbatim>\<open>s.includes(t)\<close> and \<^verbatim>\<open>s.split(c)\<close> for a one-character separator.\<close>

definition startsWith :: "string \<Rightarrow> string \<Rightarrow> bool" where
  "startsWith s t = prefix t s"

fun str_includes :: "string \<Rightarrow> string \<Rightarrow> bool" where
  "str_includes [] t = (t = [])"
| "str_includes (c # s) t = (prefix t (c # s) \<or> str_includes s t)"

fun split_sep :: "char \<Rightarrow> string \<Rightarrow> string list" where
  "split_sep c [] = [[]]"
| "split_sep c (x # xs) =
     (if x = c then [] # split_sep c xs
      else (case split_sep c xs of
              [] \<Rightarrow> [[x]]
            | s # ss \<Rightarrow> (x # s) # ss))"

section \<open>Node's \<^verbatim>\<open>path.resolve\<close> (POSIX)\<close>

text \<open>
  \<^verbatim>\<open>path.resolve(...args)\<close> walks its arguments from the right, skipping empty ones and
  prepending each to the path built so far, until it has prepended an absolute one; when the
  arguments run out it prepends the working directory. The result is then normalised lexically:
  empty segments and \<^verbatim>\<open>.\<close> are dropped, \<^verbatim>\<open>..\<close> removes the segment before it (and is itself
  dropped at the root of an absolute path), and no trailing separator is kept.
  Node's \<^verbatim>\<open>normalizeString\<close> scans characters; the model works on the segments between
  separators, with the same cases. \<open>allowAboveRoot\<close> is Node's flag of that name, true only
  when the path built is relative.
\<close>

fun normalizeString :: "bool \<Rightarrow> string list \<Rightarrow> string list \<Rightarrow> string list" where
  "normalizeString allowAboveRoot res [] = res"
| "normalizeString allowAboveRoot res (s # ss) =
     (if s = [] \<or> s = ''.'' then normalizeString allowAboveRoot res ss
      else if s = ''..'' then
        (if res \<noteq> [] \<and> last res \<noteq> ''..'' then normalizeString allowAboveRoot (butlast res) ss
         else normalizeString allowAboveRoot (if allowAboveRoot then res @ [''..''] else res) ss)
      else normalizeString allowAboveRoot (res @ [s]) ss)"

fun join_sep :: "string list \<Rightarrow> string" where
  "join_sep [] = []"
| "join_sep [s] = s"
| "join_sep (s # t # ts) = s @ ''/'' @ join_sep (t # ts)"

fun resolve_loop :: "string list \<Rightarrow> string \<Rightarrow> string \<times> bool" where
  "resolve_loop [] resolvedPath = (resolvedPath, False)"
| "resolve_loop (p # ps) resolvedPath =
     (if p = [] then resolve_loop ps resolvedPath
      else if startsWith p ''/'' then (p @ ''/'' @ resolvedPath, True)
      else resolve_loop ps (p @ ''/'' @ resolvedPath))"

definition path_resolve :: "string \<Rightarrow> string list \<Rightarrow> string" where
  "path_resolve cwd args =
     (case resolve_loop (rev args @ [cwd]) [] of
        (resolvedPath, resolvedAbsolute) \<Rightarrow>
          (let segs = normalizeString (\<not> resolvedAbsolute) [] (split_sep (CHR ''/'') resolvedPath)
           in if resolvedAbsolute then ''/'' @ join_sep segs
              else if join_sep segs \<noteq> [] then join_sep segs else ''.''))"

section \<open>The path resolver\<close>

text \<open>
  \<^verbatim>\<open>createPathResolver(baseDir)\<close> of \<^verbatim>\<open>plugin/fs-handlers.js\<close>. The argument of the returned
  function is whatever the handler read from the query or the body; calling \<^verbatim>\<open>startsWith\<close> on
  a value that is not a string throws a \<^verbatim>\<open>TypeError\<close>. \<open>cwd\<close> is \<^verbatim>\<open>process.cwd()\<close>, which
  \<^verbatim>\<open>path.resolve\<close> reads when \<open>baseDir\<close> is relative.
\<close>

definition typeError_startsWith :: "jsval \<Rightarrow> exn" where
  "typeError_startsWith v =
     (if v = JUndefined then Error ''Cannot read properties of undefined (reading 'startsWith')''
      else if v = JNull then Error ''Cannot read properties of null (reading 'startsWith')''
      else Error ''filePath.startsWith is not a function'')"

definition createPathResolver :: "string \<Rightarrow> string \<Rightarrow> jsval \<Rightarrow> exn + string" where
  "createPathResolver cwd baseDir filePath =
     (case filePath of
        JStr fp \<Rightarrow>
          (let normalizedPath = (if startsWith fp ''/'' then drop 1 fp else fp);
               resolved = path_resolve cwd [baseDir, normalizedPath]
           in if \<not> startsWith resolved baseDir
              then Inl (Error ''Invalid path: outside base directory'')
              else Inr resolved)
      | _ \<Rightarrow> Inl (typeError_startsWith filePath))"

text \<open>
  The base directory the entry points pass in is itself a result of \<^verbatim>\<open>path.resolve\<close>: an
  absolute path that \<^verbatim>\<open>path.resolve\<close> leaves unchanged.
\<close>

definition is_resolved :: "string \<Rightarrow> bool" where
  "is_resolved dir = (startsWith dir ''/'' \<and> path_resolve [] [dir] = dir)"

text \<open>
  A segment that normalisation keeps as it is: not empty, not \<^verbatim>\<open>.\<close>, not \<^verbatim>\<open>..\<close>, and free of
  separators.
\<close>

definition plain :: "string \<Rightarrow> bool" where
  "plain s = (s \<noteq> [] \<and> s \<noteq> ''.'' \<and> s \<noteq> ''..'' \<and> CHR ''/'' \<notin> set s)"

section \<open>The platform: JavaScript built-ins and the filesystem module\<close>

text \<open>
  The handlers call built-ins of the JavaScript runtime and the primitives of \<^verbatim>\<open>fs/promises\<close>.
  None of them is code of this repository, so the model takes them as parameters, collected in
  one record. A primitive that can throw returns \<open>Inl\<close> of the exception.
  \<^item> \<open>JSON_parse s\<close> is \<^verbatim>\<open>JSON.parse(s)\<close>;
  \<^item> \<open>JSON_stringify v\<close> is \<^verbatim>\<open>JSON.stringify(v, null, 2)\<close>;
  \<^item> \<open>String_of v\<close> is \<^verbatim>\<open>String(v)\<close>;
  \<^item> \<open>Buffer_from v a\<close> is \<^verbatim>\<open>Buffer.from(v, a)\<close> (\<^verbatim>\<open>Buffer.from(v)\<close> when \<open>a\<close> is \<open>JUndefined\<close>);
  \<^item> \<open>Buffer_toString b\<close> is \<^verbatim>\<open>b.toString()\<close>;
  \<^item> \<open>URLSearchParams s\<close> is the list of entries of \<^verbatim>\<open>new URLSearchParams(s)\<close>;
  \<^item> \<open>fs_exec c st\<close> runs the filesystem primitive \<open>c\<close> on the filesystem \<open>st\<close> and returns
    the value the promise resolves to (or the error it rejects with) and the new filesystem;
  \<^item> \<open>cwd\<close> is \<^verbatim>\<open>process.cwd()\<close>.
\<close>

datatype fs_call =
    ReadFile string string
  | Readdir string bool
  | Stat string
  | Lstat string
  | Realpath string
  | Readlink string
  | WriteFile string bytes
  | AppendFile string bytes
  | CopyFile string string jsval
  | Mkdir string jsval
  | Rmdir string jsval
  | Rm string jsval jsval
  | Rename string string
  | Unlink string

record 'fs platform =
  JSON_parse :: "string \<Rightarrow> exn + jsval"
  JSON_stringify :: "jsval \<Rightarrow> string"
  String_of :: "jsval \<Rightarrow> string"
  Buffer_from :: "jsval \<Rightarrow> jsval \<Rightarrow> exn + bytes"
  Buffer_toString :: "bytes \<Rightarrow> string"
  URLSearchParams :: "string \<Rightarrow> (string \<times> string) list"
  fs_exec :: "fs_call \<Rightarrow> 'fs \<Rightarrow> (exn + jsval) \<times> 'fs"
  cwd :: string

text \<open>
  The world a request runs in: the filesystem, and the list of the filesystem primitives
  invoked so far (what a spy on the \<^verbatim>\<open>fs\<close> module would record).
\<close>

record 'fs world =
  store :: 'fs
  calls :: "fs_call list"

definition invoke :: "'fs platform \<Rightarrow> fs_call \<Rightarrow> 'fs world \<Rightarrow> (exn + jsval) \<times> 'fs world" where
  "invoke pf c w =
     (case fs_exec pf c (store w) of
        (r, st) \<Rightarrow> (r, \<lparr>store = st, calls = calls w @ [c]\<rparr>))"

section \<open>Requests and responses\<close>

text \<open>
  Of a request the gateway reads the method, the URL, the \<^verbatim>\<open>content-type\<close> header and the body
  stream, which delivers chunks and then ends, or fails. Of a response it sets the status, the
  headers and the body; \<open>res_body\<close> holds the value whose \<^verbatim>\<open>JSON.stringify\<close> is sent
  (\<open>JUndefined\<close> for \<^verbatim>\<open>res.end()\<close> without an argument).
\<close>

record request =
  req_method :: string
  url :: string
  headers :: "(string \<times> string) list"
  chunks :: "bytes list"
  stream_error :: "exn option"

record response =
  status :: nat
  res_headers :: "(string \<times> string) list"
  res_body :: jsval

type_synonym 'fs handler = "request \<Rightarrow> 'fs world \<Rightarrow> (exn + response) \<times> 'fs world"

definition json_response :: "nat \<Rightarrow> jsval \<Rightarrow> response" where
  "json_response code v =
     \<lparr>status = code, res_headers = [(''Content-Type'', ''application/json'')], res_body = v\<rparr>"

definition getRawBody :: "request \<Rightarrow> exn + bytes" where
  "getRawBody req =
     (case stream_error req of
        Some e \<Rightarrow> Inl e
      | None \<Rightarrow> Inr (concat (chunks req)))"

definition parseQuery :: "'fs platform \<Rightarrow> string \<Rightarrow> (string \<Rightarrow> string option)" where
  "parseQuery pf u =
     (case split_sep (CHR ''?'') u of
        _ # queryString # _ \<Rightarrow>
          (if queryString = [] then Map.empty
           else map_of (rev (URLSearchParams pf queryString)))
      | _ \<Rightarrow> Map.empty)"

text \<open>Reading a property of the query object: a string, or \<^verbatim>\<open>undefined\<close>.\<close>

definition query_prop :: "(string \<Rightarrow> string option) \<Rightarrow> string \<Rightarrow> jsval" where
  "query_prop query k = (case query k of None \<Rightarrow> JUndefined | Some v \<Rightarrow> JStr v)"

text \<open>
  JavaScript on values: truthiness (\<^verbatim>\<open>!v\<close>), a property read \<^verbatim>\<open>v.k\<close> for the property names
  the handlers use (none of them is inherited from a prototype), which throws on \<^verbatim>\<open>null\<close> and
  \<^verbatim>\<open>undefined\<close>, and the default of a destructuring pattern, which applies to \<^verbatim>\<open>undefined\<close>
  only.
\<close>

fun truthy :: "jsval \<Rightarrow> bool" where
  "truthy JUndefined = False"
| "truthy JNull = False"
| "truthy (JBool b) = b"
| "truthy (JNum x) = (x \<noteq> 0)"
| "truthy (JStr s) = (s \<noteq> [])"
| "truthy (JArr xs) = True"
| "truthy (JObj kvs) = True"

fun field :: "jsval \<Rightarrow> string \<Rightarrow> jsval" where
  "field (JObj kvs) k = (case map_of kvs k of None \<Rightarrow> JUndefined | Some v \<Rightarrow> v)"
| "field v k = JUndefined"

definition read_prop :: "jsval \<Rightarrow> string \<Rightarrow> exn + jsval" where
  "read_prop v k =
     (if v = JUndefined
      then Inl (Error (''Cannot read properties of undefined (reading '' @ [CHR 0x27] @ k @ [CHR 0x27] @ '')''))
      else if v = JNull
      then Inl (Error (''Cannot read properties of null (reading '' @ [CHR 0x27] @ k @ [CHR 0x27] @ '')''))
      else Inr (field v k))"

text \<open>
  A destructuring pattern applied to \<^verbatim>\<open>JSON.parse(...)\<close>; \<open>k\<close> is the first property of the
  pattern, which the message of the \<^verbatim>\<open>TypeError\<close> names.
\<close>

definition destructure :: "string \<Rightarrow> jsval \<Rightarrow> exn + jsval" where
  "destructure k v =
     (if v = JUndefined
      then Inl (Error (''Cannot destructure property '' @ [CHR 0x27] @ k @ [CHR 0x27]
                         @ '' of '' @ [CHR 0x27] @ ''JSON.parse(...)'' @ [CHR 0x27]
                         @ '' as it is undefined.''))
      else if v = JNull
      then Inl (Error (''Cannot destructure property '' @ [CHR 0x27] @ k @ [CHR 0x27]
                         @ '' of '' @ [CHR 0x27] @ ''JSON.parse(...)'' @ [CHR 0x27]
                         @ '' as it is null.''))
      else Inr v)"

definition dflt :: "jsval \<Rightarrow> jsval \<Rightarrow> jsval" where
  "dflt v d = (if v = JUndefined then d else v)"

text \<open>
  \<^verbatim>\<open>JSON.parse(rawBody.toString())\<close> followed by a destructuring pattern whose first property
  is \<open>k\<close>, as the handlers that take their parameters from a JSON body begin.
\<close>

definition parseBody :: "'fs platform \<Rightarrow> request \<Rightarrow> string \<Rightarrow> exn + jsval" where
  "parseBody pf req k =
     (case getRawBody req of
        Inl e \<Rightarrow> Inl e
      | Inr rawBody \<Rightarrow>
          (case JSON_parse pf (Buffer_toString pf rawBody) of
             Inl e \<Rightarrow> Inl e
           | Inr v \<Rightarrow> destructure k v))"

text \<open>
  The common tail of a handler: invoke one primitive and build the response from its result.
\<close>

definition call_fs :: "'fs platform \<Rightarrow> fs_call \<Rightarrow> (jsval \<Rightarrow> response) \<Rightarrow> 'fs world \<Rightarrow> (exn + response) \<times> 'fs world" where
  "call_fs pf c respond w =
     (case invoke pf c w of
        (Inl e, w') \<Rightarrow> (Inl e, w')
      | (Inr v, w') \<Rightarrow> (Inr (respond v), w'))"

section \<open>The handlers of \<^verbatim>\<open>createFsHandlers\<close>\<close>

text \<open>
  Each handler is an \<^verbatim>\<open>async\<close> function: it either writes a response or rejects with an
  exception (\<open>Inl\<close>). \<open>baseDir\<close> is the argument of \<^verbatim>\<open>createFsHandlers\<close>; \<^verbatim>\<open>resolvePath\<close> is
  \<open>createPathResolver (cwd pf) baseDir\<close>.
\<close>

definition GET_root :: "'fs platform \<Rightarrow> string \<Rightarrow> 'fs handler" where
  "GET_root pf baseDir req w =
     (Inr (json_response 200
        (JObj [(''message'', JStr ''fs-browser API''), (''baseDirectory'', JStr baseDir)])), w)"

definition GET_methods :: "'fs platform \<Rightarrow> string \<Rightarrow> 'fs handler" where
  "GET_methods pf baseDir req w =
     (Inr (json_response 200
        (JObj [(''methods'', JArr (map JStr
           [''readFile'', ''writeFile'', ''appendFile'', ''copyFile'',
            ''readdir'', ''mkdir'', ''rmdir'', ''rm'',
            ''rename'', ''unlink'',
            ''stat'', ''lstat'', ''readlink'', ''realpath'']))])), w)"

definition GET_readFile :: "'fs platform \<Rightarrow> string \<Rightarrow> 'fs handler" where
  "GET_readFile pf baseDir req w =
     (let query = parseQuery pf (url req);
          filePath = query_prop query ''path'';
          encoding = (case query ''encoding'' of None \<Rightarrow> ''utf8'' | Some e \<Rightarrow> e)
      in case createPathResolver (cwd pf) baseDir filePath of
           Inl e \<Rightarrow> (Inl e, w)
         | Inr fullPath \<Rightarrow>
             call_fs pf (ReadFile fullPath encoding)
               (\<lambda>data. json_response 200 (JObj [(''data'', data)])) w)"

definition GET_readdir :: "'fs platform \<Rightarrow> string \<Rightarrow> 'fs handler" where
  "GET_readdir pf baseDir req w =
     (let query = parseQuery pf (url req);
          dirPath = (case query ''path'' of None \<Rightarrow> ''.'' | Some d \<Rightarrow> d);
          withFileTypes = (case query ''withFileTypes'' of None \<Rightarrow> ''false'' | Some t \<Rightarrow> t)
      in case createPathResolver (cwd pf) baseDir (JStr dirPath) of
           Inl e \<Rightarrow> (Inl e, w)
         | Inr fullPath \<Rightarrow>
             call_fs pf (Readdir fullPath (withFileTypes = ''true''))
               (\<lambda>files. json_response 200 (JObj [(''files'', files)])) w)"

text \<open>
  The projection of an \<^verbatim>\<open>fs.Stats\<close> object that \<^verbatim>\<open>stat\<close> and \<^verbatim>\<open>lstat\<close> send. The object the
  primitive returns is modelled as the object of the values its accessors return.
\<close>

definition stats_projection :: "jsval \<Rightarrow> jsval" where
  "stats_projection stats =
     JObj [(''stats'', JObj
       [(''isFile'', field stats ''isFile''),
        (''isDirectory'', field stats ''isDirectory''),
        (''isSymbolicLink'', field stats ''isSymbolicLink''),
        (''size'', field stats ''size''),
        (''mode'', field stats ''mode''),
        (''mtime'', field stats ''mtime''),
        (''atime'', field stats ''atime''),
        (''ctime'', field stats ''ctime''),
        (''birthtime'', field stats ''birthtime'')])]"

definition GET_stat :: "'fs platform \<Rightarrow> string \<Rightarrow> 'fs handler" where
  "GET_stat pf baseDir req w =
     (let query = parseQuery pf (url req);
          filePath = query_prop query ''path''
      in case createPathResolver (cwd pf) baseDir filePath of
           Inl e \<Rightarrow> (Inl e, w)
         | Inr fullPath \<Rightarrow>
             call_fs pf (Stat fullPath) (\<lambda>stats. json_response 200 (stats_projection stats)) w)"

definition GET_lstat :: "'fs platform \<Rightarrow> string \<Rightarrow> 'fs handler" where
  "GET_lstat pf baseDir req w =
     (let query = parseQuery pf (url req);
          filePath = query_prop query ''path''
      in case createPathResolver (cwd pf) baseDir filePath of
           Inl e \<Rightarrow> (Inl e, w)
         | Inr fullPath \<Rightarrow>
             call_fs pf (Lstat fullPath) (\<lambda>stats. json_response 200 (stats_projection stats)) w)"

definition GET_realpath :: "'fs platform \<Rightarrow> string \<Rightarrow> 'fs handler" where
  "GET_realpath pf baseDir req w =
     (let query = parseQuery pf (url req);
          filePath = query_prop query ''path''
      in case createPathResolver (cwd pf) baseDir filePath of
           Inl e \<Rightarrow> (Inl e, w)
         | Inr fullPath \<Rightarrow>
             call_fs pf (Realpath fullPath)
               (\<lambda>realPath. json_response 200 (JObj [(''realPath'', realPath)])) w)"

definition GET_readlink :: "'fs platform \<Rightarrow> string \<Rightarrow> 'fs handler" where
  "GET_readlink pf baseDir req w =
     (let query = parseQuery pf (url req);
          linkPath = query_prop query ''path''
      in case createPathResolver (cwd pf) baseDir linkPath of
           Inl e \<Rightarrow> (Inl e, w)
         | Inr fullPath \<Rightarrow>
             call_fs pf (Readlink fullPath)
               (\<lambda>target. json_response 200 (JObj [(''target'', target)])) w)"

subsection \<open>Decoding the body of a write or an append\<close>

text \<open>
  \<^verbatim>\<open>POST /writeFile\<close> and \<^verbatim>\<open>POST /appendFile\<close> begin with the same code, up to the name of the
  payload variable (\<^verbatim>\<open>writeData\<close>, \<^verbatim>\<open>appendData\<close>): it picks the target path, the payload and the
  classification tag from the content type, the query and the body. It ends in one of three
  ways: it has answered the request itself (a 400), it has thrown, or it goes on with
  \<^verbatim>\<open>filePath\<close>, the payload and \<^verbatim>\<open>type\<close>.
\<close>

datatype decoded =
    Responded response
  | Thrown exn
  | Decoded jsval bytes jsval

definition bad_request :: "string \<Rightarrow> response" where
  "bad_request msg = json_response 400 (JObj [(''error'', JStr msg)])"

text \<open>
  The \<^verbatim>\<open>switch (dataType)\<close> of the structured body: the payload from \<^verbatim>\<open>data\<close>, \<^verbatim>\<open>type\<close> and
  \<^verbatim>\<open>encoding\<close>.
\<close>

definition encodePayload :: "'fs platform \<Rightarrow> jsval \<Rightarrow> jsval \<Rightarrow> jsval \<Rightarrow> exn + bytes" where
  "encodePayload pf data dataType encoding =
     (if dataType = JStr ''text'' then Buffer_from pf (JStr (String_of pf data)) encoding
      else if dataType = JStr ''json'' then Buffer_from pf (JStr (JSON_stringify pf data)) encoding
      else if dataType = JStr ''buffer'' then
        (case data of
           JArr xs \<Rightarrow> Buffer_from pf data JUndefined
         | _ \<Rightarrow> Buffer_from pf data (JStr ''base64''))
      else Buffer_from pf (JStr (String_of pf data)) encoding)"

text \<open>The structured body: the \<^verbatim>\<open>else\<close> branch of the \<^verbatim>\<open>application/json\<close> case.\<close>

definition decodeStructured :: "'fs platform \<Rightarrow> bytes \<Rightarrow> decoded" where
  "decodeStructured pf rawBody =
     (if length rawBody = 0 then Responded (bad_request ''Empty request body'')
      else
        (case JSON_parse pf (Buffer_toString pf rawBody) of
           Inl e \<Rightarrow> Thrown e
         | Inr parsed \<Rightarrow>
             (case read_prop parsed ''path'' of
                Inl e \<Rightarrow> Thrown e
              | Inr filePath \<Rightarrow>
                  (if \<not> truthy filePath then Responded (bad_request ''Path is required'')
                   else
                     (let data = field parsed ''data'';
                          dataType = dflt (field parsed ''type'') (JStr ''text'');
                          encoding = dflt (field parsed ''encoding'') (JStr ''utf8'')
                      in if data = JUndefined \<or> data = JNull
                         then Responded (bad_request ''Data is required'')
                         else
                           (case encodePayload pf data dataType encoding of
                              Inl e \<Rightarrow> Thrown e
                            | Inr payload \<Rightarrow> Decoded filePath payload dataType))))))"

definition is_binary_type :: "string \<Rightarrow> bool" where
  "is_binary_type contentType =
     (str_includes contentType ''application/octet-stream'' \<or>
      str_includes contentType ''image/'' \<or>
      str_includes contentType ''video/'' \<or>
      str_includes contentType ''audio/'' \<or>
      str_includes contentType ''application/pdf'')"

definition content_type_of :: "request \<Rightarrow> string" where
  "content_type_of req =
     (case map_of (headers req) ''content-type'' of None \<Rightarrow> [] | Some c \<Rightarrow> c)"

definition decodeBody :: "'fs platform \<Rightarrow> request \<Rightarrow> bytes \<Rightarrow> decoded" where
  "decodeBody pf req rawBody =
     (let contentType = content_type_of req;
          query = parseQuery pf (url req);
          filePath = query_prop query ''path''
      in if is_binary_type contentType then Decoded filePath rawBody (JStr ''binary'')
         else if str_includes contentType ''text/plain'' then Decoded filePath rawBody (JStr ''text'')
         else if str_includes contentType ''application/json'' then
           (if truthy filePath then Decoded filePath rawBody (JStr ''json'')
            else decodeStructured pf rawBody)
         else Decoded filePath rawBody (JStr ''unknown''))"

definition POST_writeFile :: "'fs platform \<Rightarrow> string \<Rightarrow> 'fs handler" where
  "POST_writeFile pf baseDir req w =
     (case getRawBody req of
        Inl e \<Rightarrow> (Inl e, w)
      | Inr rawBody \<Rightarrow>
          (case decodeBody pf req rawBody of
             Responded r \<Rightarrow> (Inr r, w)
           | Thrown e \<Rightarrow> (Inl e, w)
           | Decoded filePath writeData type \<Rightarrow>
               (if length writeData = 0 then (Inr (bad_request ''No data to write''), w)
                else
                  (case createPathResolver (cwd pf) baseDir filePath of
                     Inl e \<Rightarrow> (Inl e, w)
                   | Inr fullPath \<Rightarrow>
                       call_fs pf (WriteFile fullPath writeData)
                         (\<lambda>_. json_response 200
                            (JObj [(''message'', JStr ''File written successfully''),
                                   (''path'', filePath),
                                   (''type'', type),
                                   (''size'', JNum (of_nat (length writeData)))])) w))))"

definition POST_appendFile :: "'fs platform \<Rightarrow> string \<Rightarrow> 'fs handler" where
  "POST_appendFile pf baseDir req w =
     (case getRawBody req of
        Inl e \<Rightarrow> (Inl e, w)
      | Inr rawBody \<Rightarrow>
          (case decodeBody pf req rawBody of
             Responded r \<Rightarrow> (Inr r, w)
           | Thrown e \<Rightarrow> (Inl e, w)
           | Decoded filePath appendData type \<Rightarrow>
               (if length appendData = 0 then (Inr (bad_request ''No data to append''), w)
                else
                  (case createPathResolver (cwd pf) baseDir filePath of
                     Inl e \<Rightarrow> (Inl e, w)
                   | Inr fullPath \<Rightarrow>
                       call_fs pf (AppendFile fullPath appendData)
                         (\<lambda>_. json_response 200
                            (JObj [(''message'', JStr ''Data appended successfully''),
                                   (''path'', filePath),
                                   (''type'', type),
                                   (''size'', JNum (of_nat (length appendData)))])) w))))"

subsection \<open>The handlers that take their parameters from a JSON body\<close>

definition POST_copyFile :: "'fs platform \<Rightarrow> string \<Rightarrow> 'fs handler" where
  "POST_copyFile pf baseDir req w =
     (case parseBody pf req ''src'' of
        Inl e \<Rightarrow> (Inl e, w)
      | Inr parsed \<Rightarrow>
          (let src = field parsed ''src'';
               dest = field parsed ''dest'';
               flags = dflt (field parsed ''flags'') (JNum 0)
           in case createPathResolver (cwd pf) baseDir src of
                Inl e \<Rightarrow> (Inl e, w)
              | Inr srcPath \<Rightarrow>
                  (case createPathResolver (cwd pf) baseDir dest of
                     Inl e \<Rightarrow> (Inl e, w)
                   | Inr destPath \<Rightarrow>
                       call_fs pf (CopyFile srcPath destPath flags)
                         (\<lambda>_. json_response 200
                            (JObj [(''message'', JStr ''File copied successfully''),
                                   (''src'', src), (''dest'', dest)])) w)))"

definition POST_mkdir :: "'fs platform \<Rightarrow> string \<Rightarrow> 'fs handler" where
  "POST_mkdir pf baseDir req w =
     (case parseBody pf req ''path'' of
        Inl e \<Rightarrow> (Inl e, w)
      | Inr parsed \<Rightarrow>
          (let dirPath = field parsed ''path'';
               recursive = dflt (field parsed ''recursive'') (JBool True)
           in case createPathResolver (cwd pf) baseDir dirPath of
                Inl e \<Rightarrow> (Inl e, w)
              | Inr fullPath \<Rightarrow>
                  call_fs pf (Mkdir fullPath recursive)
                    (\<lambda>_. json_response 200
                       (JObj [(''message'', JStr ''Directory created''), (''path'', dirPath)])) w))"

definition DELETE_rmdir :: "'fs platform \<Rightarrow> string \<Rightarrow> 'fs handler" where
  "DELETE_rmdir pf baseDir req w =
     (case parseBody pf req ''path'' of
        Inl e \<Rightarrow> (Inl e, w)
      | Inr parsed \<Rightarrow>
          (let dirPath = field parsed ''path'';
               recursive = dflt (field parsed ''recursive'') (JBool False)
           in case createPathResolver (cwd pf) baseDir dirPath of
                Inl e \<Rightarrow> (Inl e, w)
              | Inr fullPath \<Rightarrow>
                  call_fs pf (Rmdir fullPath recursive)
                    (\<lambda>_. json_response 200
                       (JObj [(''message'', JStr ''Directory removed''), (''path'', dirPath)])) w))"

definition DELETE_rm :: "'fs platform \<Rightarrow> string \<Rightarrow> 'fs handler" where
  "DELETE_rm pf baseDir req w =
     (case parseBody pf req ''path'' of
        Inl e \<Rightarrow> (Inl e, w)
      | Inr parsed \<Rightarrow>
          (let targetPath = field parsed ''path'';
               recursive = dflt (field parsed ''recursive'') (JBool False);
               force = dflt (field parsed ''force'') (JBool False)
           in case createPathResolver (cwd pf) baseDir targetPath of
                Inl e \<Rightarrow> (Inl e, w)
              | Inr fullPath \<Rightarrow>
                  call_fs pf (Rm fullPath recursive force)
                    (\<lambda>_. json_response 200
                       (JObj [(''message'', JStr ''Removed successfully''), (''path'', targetPath)])) w))"

definition PUT_rename :: "'fs platform \<Rightarrow> string \<Rightarrow> 'fs handler" where
  "PUT_rename pf baseDir req w =
     (case parseBody pf req ''oldPath'' of
        Inl e \<Rightarrow> (Inl e, w)
      | Inr parsed \<Rightarrow>
          (let oldPath = field parsed ''oldPath'';
               newPath = field parsed ''newPath''
           in case createPathResolver (cwd pf) baseDir oldPath of
                Inl e \<Rightarrow> (Inl e, w)
              | Inr oldFullPath \<Rightarrow>
                  (case createPathResolver (cwd pf) baseDir newPath of
                     Inl e \<Rightarrow> (Inl e, w)
                   | Inr newFullPath \<Rightarrow>
                       call_fs pf (Rename oldFullPath newFullPath)
                         (\<lambda>_. json_response 200
                            (JObj [(''message'', JStr ''Renamed successfully''),
                                   (''oldPath'', oldPath), (''newPath'', newPath)])) w)))"

definition DELETE_unlink :: "'fs platform \<Rightarrow> string \<Rightarrow> 'fs handler" where
  "DELETE_unlink pf baseDir req w =
     (case parseBody pf req ''path'' of
        Inl e \<Rightarrow> (Inl e, w)
      | Inr parsed \<Rightarrow>
          (let filePath = field parsed ''path''
           in case createPathResolver (cwd pf) baseDir filePath of
                Inl e \<Rightarrow> (Inl e, w)
              | Inr fullPath \<Rightarrow>
                  call_fs pf (Unlink fullPath)
                    (\<lambda>_. json_response 200
                       (JObj [(''message'', JStr ''File deleted''), (''path'', filePath)])) w))"

subsection \<open>The route table\<close>

text \<open>The object \<^verbatim>\<open>createFsHandlers(baseDir)\<close> returns: handlers by route key.\<close>

definition createFsHandlers :: "'fs platform \<Rightarrow> string \<Rightarrow> (string \<times> 'fs handler) list" where
  "createFsHandlers pf baseDir =
     [(''GET /'', GET_root pf baseDir),
      (''GET /methods'', GET_methods pf baseDir),
      (''GET /readFile'', GET_readFile pf baseDir),
      (''GET /readdir'', GET_readdir pf baseDir),
      (''GET /stat'', GET_stat pf baseDir),
      (''GET /lstat'', GET_lstat pf baseDir),
      (''GET /realpath'', GET_realpath pf baseDir),
      (''GET /readlink'', GET_readlink pf baseDir),
      (''POST /writeFile'', POST_writeFile pf baseDir),
      (''POST /appendFile'', POST_appendFile pf baseDir),
      (''POST /copyFile'', POST_copyFile pf baseDir),
      (''POST /mkdir'', POST_mkdir pf baseDir),
      (''DELETE /rmdir'', DELETE_rmdir pf baseDir),
      (''DELETE /rm'', DELETE_rm pf baseDir),
      (''PUT /rename'', PUT_rename pf baseDir),
      (''DELETE /unlink'', DELETE_unlink pf baseDir)]"

section \<open>The two entry points\<close>

text \<open>
  Both entry points select the handler in the same way. The route key is the method, a
  space, and the URL after the prefix up to the first \<^verbatim>\<open>?\<close> (\<^verbatim>\<open>/\<close> when nothing follows the
  prefix). A route key always contains a space, no property inherited from
  \<^verbatim>\<open>Object.prototype\<close> does, so \<^verbatim>\<open>handlers[handlerKey]\<close> finds own properties only.
\<close>

definition routePath_of :: "string \<Rightarrow> request \<Rightarrow> string" where
  "routePath_of pre req =
     (let rest = drop (length pre) (url req) in if rest = [] then ''/'' else rest)"

definition route_part :: "string \<Rightarrow> string" where
  "route_part routePath = (case split_sep (CHR ''?'') routePath of [] \<Rightarrow> [] | r # _ \<Rightarrow> r)"

definition handlerKey_of :: "string \<Rightarrow> request \<Rightarrow> string" where
  "handlerKey_of pre req = req_method req @ '' '' @ route_part (routePath_of pre req)"

definition not_found :: response where
  "not_found = json_response 404 (JObj [(''error'', JStr ''Route not found'')])"

text \<open>The \<^verbatim>\<open>catch\<close> block of both entry points.\<close>

definition error_response :: "exn \<Rightarrow> response" where
  "error_response error =
     json_response 500
       (JObj [(''error'', JObj [(''message'', JStr (message error)), (''status'', JNum 500)])])"

definition dispatch :: "'fs platform \<Rightarrow> string \<Rightarrow> string \<Rightarrow> 'fs handler" where
  "dispatch pf pre baseDir req w =
     (case map_of (createFsHandlers pf baseDir) (handlerKey_of pre req) of
        Some handler \<Rightarrow> handler req w
      | None \<Rightarrow> (Inr not_found, w))"

subsection \<open>The \<^verbatim>\<open>withfs\<close> server\<close>

text \<open>
  The callback of \<^verbatim>\<open>http.createServer\<close> in the \<^verbatim>\<open>withfs\<close> command. \<open>serveStaticFile\<close>, the
  static file server of the command, is outside the gateway and is a parameter.
\<close>

record config =
  apiPrefix :: string
  justFs :: bool
  BASE_DIR :: string

definition cors_headers :: "(string \<times> string) list" where
  "cors_headers =
     [(''Access-Control-Allow-Origin'', ''*''),
      (''Access-Control-Allow-Methods'', ''GET, POST, PUT, DELETE, OPTIONS''),
      (''Access-Control-Allow-Headers'', ''Content-Type'')]"

definition with_cors :: "response \<Rightarrow> response" where
  "with_cors r = r\<lparr>res_headers := cors_headers @ res_headers r\<rparr>"

definition withfs_server ::
  "'fs platform \<Rightarrow> config \<Rightarrow> 'fs handler \<Rightarrow> request \<Rightarrow> 'fs world \<Rightarrow> response \<times> 'fs world" where
  "withfs_server pf cfg serveStaticFile req w =
     (if req_method req = ''OPTIONS''
      then (\<lparr>status = 200, res_headers = cors_headers, res_body = JUndefined\<rparr>, w)
      else
        (case
           (if startsWith (url req) (apiPrefix cfg) then dispatch pf (apiPrefix cfg) (BASE_DIR cfg) req w
            else if \<not> justFs cfg then serveStaticFile req w
            else (Inr (json_response 404
                    (JObj [(''error'', JStr ''Not Found''),
                           (''message'', JStr ''Running in --justfs mode. Only fs API endpoints are available.'')])), w))
         of
           (Inl error, w') \<Rightarrow> (with_cors (error_response error), w')
         | (Inr r, w') \<Rightarrow> (with_cors r, w')))"

subsection \<open>The Vite middleware\<close>

text \<open>
  The middleware \<^verbatim>\<open>configureServer\<close> installs. \<open>None\<close> is \<^verbatim>\<open>next()\<close>: the request is not
  for the gateway.
\<close>

definition vite_middleware ::
  "'fs platform \<Rightarrow> string \<Rightarrow> string \<Rightarrow> request \<Rightarrow> 'fs world \<Rightarrow> response option \<times> 'fs world" where
  "vite_middleware pf API_PREFIX baseDir req w =
     (if \<not> startsWith (url req) API_PREFIX then (None, w)
      else
        (case dispatch pf API_PREFIX baseDir req w of
           (Inl error, w') \<Rightarrow> (Some (error_response error), w')
         | (Inr r, w') \<Rightarrow> (Some r, w')))"

subsection \<open>The listener\<close>

text \<open>
  The listener hands each request it receives to the callback. The model serves the requests
  of a list one after the other, each in the world the one before left.
\<close>

fun listener :: "(request \<Rightarrow> 'w \<Rightarrow> 'r \<times> 'w) \<Rightarrow> request list \<Rightarrow> 'w \<Rightarrow> 'r list \<times> 'w" where
  "listener srv [] w = ([], w)"
| "listener srv (req # reqs) w =
     (case srv req w of
        (r, w') \<Rightarrow> (case listener srv reqs w' of (rs, w'') \<Rightarrow> (r # rs, w'')))"

section \<open>The route table of the specification\<close>

text \<open>
  The table of section 6 of the specification, as pairs of method and path, to compare the keys
  of \<open>createFsHandlers\<close> with.
\<close>

definition spec_route_table :: "(string \<times> string) list" where
  "spec_route_table =
     [(''GET'', ''/''), (''GET'', ''/methods''), (''GET'', ''/readFile''), (''GET'', ''/readdir''),
      (''GET'', ''/stat''), (''GET'', ''/lstat''), (''GET'', ''/realpath''), (''GET'', ''/readlink''),
      (''POST'', ''/writeFile''), (''POST'', ''/appendFile''), (''POST'', ''/copyFile''),
      (''POST'', ''/mkdir''), (''DELETE'', ''/rmdir''), (''DELETE'', ''/rm''),
      (''PUT'', ''/rename''), (''DELETE'', ''/unlink'')]"

section \<open>Confinement of the primitives' arguments\<close>

text \<open>
  The paths a primitive is invoked on, and what the resolver's check gives for a request that
  takes the world from \<open>w\<close> to \<open>w'\<close>: either nothing was invoked, or one primitive was, on
  paths that have the base directory as a prefix of their characters.
\<close>

fun paths_of :: "fs_call \<Rightarrow> string list" where
  "paths_of (ReadFile p e) = [p]"
| "paths_of (Readdir p t) = [p]"
| "paths_of (Stat p) = [p]"
| "paths_of (Lstat p) = [p]"
| "paths_of (Realpath p) = [p]"
| "paths_of (Readlink p) = [p]"
| "paths_of (WriteFile p b) = [p]"
| "paths_of (AppendFile p b) = [p]"
| "paths_of (CopyFile p q f) = [p, q]"
| "paths_of (Mkdir p r) = [p]"
| "paths_of (Rmdir p r) = [p]"
| "paths_of (Rm p r f) = [p]"
| "paths_of (Rename p q) = [p, q]"
| "paths_of (Unlink p) = [p]"

definition confined :: "string \<Rightarrow> 'fs world \<Rightarrow> 'fs world \<Rightarrow> bool" where
  "confined baseDir w w' =
     (w' = w \<or> (\<exists>c. calls w' = calls w @ [c] \<and> list_all (prefix baseDir) (paths_of c)))"

text \<open>
  What a handler does to the world: it leaves it as it was, or its outcome is that of one
  primitive invoked through \<open>call_fs\<close>, on paths that have the base directory as a prefix.
\<close>

definition one_call ::
  "'fs platform \<Rightarrow> string \<Rightarrow> 'fs world \<Rightarrow> (exn + response) \<times> 'fs world \<Rightarrow> bool" where
  "one_call pf baseDir w out =
     (snd out = w \<or>
      (\<exists>c respond. out = call_fs pf c respond w \<and> list_all (prefix baseDir) (paths_of c)))"

section \<open>A sample platform\<close>

text \<open>
  The theorems below hold for every platform. To run the handlers on concrete requests, this
  section fixes one: an in-memory filesystem of files (a list of paths with their contents,
  the latest first) and the built-ins on the inputs the examples use.
  \<^item> \<open>sample_URLSearchParams\<close> splits at \<^verbatim>\<open>&\<close> and at the first \<^verbatim>\<open>=\<close>; it is \<^verbatim>\<open>URLSearchParams\<close> on
    query strings without \<^verbatim>\<open>%\<close> and \<^verbatim>\<open>+\<close>.
  \<^item> \<open>sample_JSON_parse\<close> and \<open>sample_JSON_stringify\<close> are \<^verbatim>\<open>JSON.parse\<close> and
    \<^verbatim>\<open>JSON.stringify(v, null, 2)\<close> on the texts and values listed, \<open>sample_String_of\<close> is
    \<^verbatim>\<open>String\<close> on strings and booleans.
  \<^item> \<open>sample_Buffer_from\<close> is \<^verbatim>\<open>Buffer.from\<close> on a string with the encodings \<^verbatim>\<open>utf8\<close> (the bytes
    of the string) and \<^verbatim>\<open>hex\<close> (pairs of hexadecimal digits, up to the first that is not one).
\<close>

definition name_value :: "string \<Rightarrow> string \<times> string" where
  "name_value s =
     (takeWhile (\<lambda>c. c \<noteq> CHR ''='') s, drop 1 (dropWhile (\<lambda>c. c \<noteq> CHR ''='') s))"

definition sample_URLSearchParams :: "string \<Rightarrow> (string \<times> string) list" where
  "sample_URLSearchParams s = map name_value (filter (\<lambda>p. p \<noteq> []) (split_sep (CHR ''&'') s))"

definition john :: jsval where
  "john = JObj [(''name'', JStr ''John''), (''age'', JNum 30)]"

definition john_text :: string where
  "john_text = ''{'' @ [CHR 0x0A] @ ''  \"name\": \"John\",'' @ [CHR 0x0A] @ ''  \"age\": 30'' @ [CHR 0x0A] @ ''}''"

definition sample_texts :: "(string \<times> jsval) list" where
  "sample_texts =
     [(''{\"path\":\"data.json\",\"data\":{\"name\":\"John\",\"age\":30},\"type\":\"json\"}'',
         JObj [(''path'', JStr ''data.json''), (''data'', john), (''type'', JStr ''json'')]),
      (john_text, john),
      (''{\"path\":\"n.json\",\"data\":12,\"type\":\"json\",\"encoding\":\"hex\"}'',
         JObj [(''path'', JStr ''n.json''), (''data'', JNum 12), (''type'', JStr ''json''),
               (''encoding'', JStr ''hex'')]),
      (''{\"path\":\"a.txt\",\"data\":\"\"}'',
         JObj [(''path'', JStr ''a.txt''), (''data'', JStr [])]),
      (''{\"path\":\"a.txt\",\"data\":\"hi\"}'',
         JObj [(''path'', JStr ''a.txt''), (''data'', JStr ''hi'')]),
      (''{\"data\":\"hi\"}'', JObj [(''data'', JStr ''hi'')]),
      (''12'', JNum 12)]"

definition sample_JSON_parse :: "string \<Rightarrow> exn + jsval" where
  "sample_JSON_parse s =
     (case map_of sample_texts s of
        Some v \<Rightarrow> Inr v
      | None \<Rightarrow> Inl (Error ''Unexpected token''))"

definition sample_JSON_stringify :: "jsval \<Rightarrow> string" where
  "sample_JSON_stringify v =
     (if v = john then john_text else if v = JNum 12 then ''12'' else ''null'')"

fun sample_String_of :: "jsval \<Rightarrow> string" where
  "sample_String_of (JStr s) = s"
| "sample_String_of (JBool b) = (if b then ''true'' else ''false'')"
| "sample_String_of v = ''[object Object]''"

definition hex_digit :: "char \<Rightarrow> nat option" where
  "hex_digit c =
     (let n = of_char c :: nat
      in if 48 \<le> n \<and> n \<le> 57 then Some (n - 48)
         else if 97 \<le> n \<and> n \<le> 102 then Some (n - 87)
         else if 65 \<le> n \<and> n \<le> 70 then Some (n - 55)
         else None)"

fun hex_decode :: "string \<Rightarrow> bytes" where
  "hex_decode (a # b # rest) =
     (case (hex_digit a, hex_digit b) of
        (Some x, Some y) \<Rightarrow> char_of (16 * x + y) # hex_decode rest
      | _ \<Rightarrow> [])"
| "hex_decode _ = []"

definition sample_Buffer_from :: "jsval \<Rightarrow> jsval \<Rightarrow> exn + bytes" where
  "sample_Buffer_from v a =
     (case v of
        JStr s \<Rightarrow>
          (if a = JStr ''utf8'' \<or> a = JUndefined then Inr s
           else if a = JStr ''hex'' then Inr (hex_decode s)
           else Inl (Error ''Unknown encoding''))
      | _ \<Rightarrow> Inl (Error ''The first argument must be of type string''))"

definition sample_fs :: "fs_call \<Rightarrow> (string \<times> bytes) list \<Rightarrow> (exn + jsval) \<times> (string \<times> bytes) list" where
  "sample_fs c files =
     (case c of
        WriteFile path content \<Rightarrow> (Inr JUndefined, (path, content) # files)
      | AppendFile path content \<Rightarrow>
          (Inr JUndefined,
           (path, (case map_of files path of None \<Rightarrow> content | Some old \<Rightarrow> old @ content)) # files)
      | ReadFile path encoding \<Rightarrow>
          (case map_of files path of
             None \<Rightarrow> (Inl (Error ''ENOENT: no such file or directory''), files)
           | Some content \<Rightarrow> (Inr (JStr content), files))
      | Readdir path withFileTypes \<Rightarrow> (Inr (JArr []), files)
      | _ \<Rightarrow> (Inl (Error ''EPERM: operation not permitted''), files))"

definition sample_platform :: "(string \<times> bytes) list platform" where
  "sample_platform =
     \<lparr>JSON_parse = sample_JSON_parse,
      JSON_stringify = sample_JSON_stringify,
      String_of = sample_String_of,
      Buffer_from = sample_Buffer_from,
      Buffer_toString = (\<lambda>b. b),
      URLSearchParams = sample_URLSearchParams,
      fs_exec = sample_fs,
      cwd = ''/srv''\<rparr>"

definition empty_world :: "(string \<times> bytes) list world" where
  "empty_world = \<lparr>store = [], calls = []\<rparr>"

section \<open>A model of \<^verbatim>\<open>JSON.stringify\<close> and \<^verbatim>\<open>JSON.parse\<close>\<close>

text \<open>
  To state what a write of type \<^verbatim>\<open>json\<close> stores and what reading it back gives, the two JSON
  built-ins are modelled on a fragment of the values: \<open>json_safe\<close> holds of the values built
  from \<^verbatim>\<open>null\<close>, booleans, strings, integers of magnitude at most \<open>9007199254740991\<close> (which a
  double holds exactly and prints in plain decimal), arrays, and objects whose keys are distinct
  and not made of digits only (JavaScript lists digit keys first, the others in the order of
  insertion).
  On this fragment \<open>json_text v 0\<close> is \<^verbatim>\<open>JSON.stringify(v, null, 2)\<close>. \<open>json_parse s\<close> is
  \<^verbatim>\<open>JSON.parse(s)\<close> where it returns a value; it returns \<open>None\<close> both for a text that is not JSON
  and for a text outside the fragment (a fraction, an exponent, a negative zero, an integer that
  is too large, an escape \<^verbatim>\<open>\u\<close> of a character beyond ASCII, a digit key, a repeated key).
\<close>

definition is_digit :: "char \<Rightarrow> bool" where
  "is_digit c = (48 \<le> (of_char c :: int) \<and> (of_char c :: int) \<le> 57)"

definition plain_keys :: "string list \<Rightarrow> bool" where
  "plain_keys ks = (distinct ks \<and> list_all (\<lambda>k. k = [] \<or> \<not> list_all is_digit k) ks)"



subsection \<open>The text of a value\<close>











subsection \<open>The value of a text\<close>

definition is_ws :: "char \<Rightarrow> bool" where
  "is_ws c = (c = CHR 0x20 \<or> c = CHR 0x0A \<or> c = CHR 0x0D \<or> c = CHR 0x09)"

definition skip_ws :: "string \<Rightarrow> string" where
  "skip_ws s = dropWhile is_ws s"

definition digits_value :: "string \<Rightarrow> int" where
  "digits_value ds = foldl (\<lambda>a c. 10 * a + (of_char c - 48)) 0 ds"

text \<open>
  A number: an optional minus sign and digits, with no zero in front of another digit. What
  may follow, a fraction or an exponent, is outside the fragment.
\<close>

definition parse_number :: "string \<Rightarrow> (real \<times> string) option" where
  "parse_number s =
     (let negative = (take 1 s = ''-'');
          t = (if negative then drop 1 s else s);
          ds = takeWhile is_digit t;
          r = dropWhile is_digit t
      in if ds = [] then None
         else if 1 < length ds \<and> take 1 ds = ''0'' then None
         else if take 1 r = ''.'' \<or> take 1 r = ''e'' \<or> take 1 r = ''E'' then None
         else if 9007199254740991 < digits_value ds then None
         else if negative \<and> digits_value ds = 0 then None
         else Some (if negative then - of_int (digits_value ds) else of_int (digits_value ds), r))"

text \<open>
  The characters of a string up to its closing quote. The state is where the scan is: in plain
  text, after a backslash, or inside \<^verbatim>\<open>\uXXXX\<close> with some digits left and the value so far.
\<close>

datatype scan = Plain | Escaped | Unicode nat nat

fun parse_chars :: "scan \<Rightarrow> string \<Rightarrow> (string \<times> string) option" where
  "parse_chars st [] = None"
| "parse_chars Plain (c # cs) =
     (if c = CHR 0x22 then Some ([], cs)
      else if c = CHR 0x5C then parse_chars Escaped cs
      else if (of_char c :: nat) < 32 then None
      else map_option (apfst ((#) c)) (parse_chars Plain cs))"
| "parse_chars Escaped (c # cs) =
     (if c = CHR 0x22 \<or> c = CHR 0x5C \<or> c = CHR ''/'' then map_option (apfst ((#) c)) (parse_chars Plain cs)
      else if c = CHR ''b'' then map_option (apfst ((#) (CHR 0x08))) (parse_chars Plain cs)
      else if c = CHR ''t'' then map_option (apfst ((#) (CHR 0x09))) (parse_chars Plain cs)
      else if c = CHR ''n'' then map_option (apfst ((#) (CHR 0x0A))) (parse_chars Plain cs)
      else if c = CHR ''f'' then map_option (apfst ((#) (CHR 0x0C))) (parse_chars Plain cs)
      else if c = CHR ''r'' then map_option (apfst ((#) (CHR 0x0D))) (parse_chars Plain cs)
      else if c = CHR ''u'' then parse_chars (Unicode 4 0) cs
      else None)"
| "parse_chars (Unicode k v) (c # cs) =
     (case hex_digit c of
        None \<Rightarrow> None
      | Some h \<Rightarrow>
          (if k \<le> 1 then
             (if 16 * v + h < 128
              then map_option (apfst ((#) (char_of (16 * v + h)))) (parse_chars Plain cs)
              else None)
           else parse_chars (Unicode (k - 1) (16 * v + h)) cs))"

text \<open>
  Values, the elements of an array after its bracket, and the members of an object after its
  brace. The first argument bounds the depth of the calls; \<open>json_parse\<close> gives more than the
  text can use.
\<close>

fun parse_value :: "nat \<Rightarrow> string \<Rightarrow> (jsval \<times> string) option"
  and parse_elements :: "nat \<Rightarrow> string \<Rightarrow> (jsval list \<times> string) option"
  and parse_members :: "nat \<Rightarrow> string \<Rightarrow> ((string \<times> jsval) list \<times> string) option" where
  "parse_value 0 s = None"
| "parse_value (Suc n) s =
     (case skip_ws s of
        [] \<Rightarrow> None
      | c # cs \<Rightarrow>
          (if c = CHR ''n'' then (if take 3 cs = ''ull'' then Some (JNull, drop 3 cs) else None)
           else if c = CHR ''t'' then (if take 3 cs = ''rue'' then Some (JBool True, drop 3 cs) else None)
           else if c = CHR ''f'' then (if take 4 cs = ''alse'' then Some (JBool False, drop 4 cs) else None)
           else if c = CHR 0x22 then
             (case parse_chars Plain cs of
                None \<Rightarrow> None
              | Some (str, r) \<Rightarrow> Some (JStr str, r))
           else if c = CHR ''['' then
             (if take 1 (skip_ws cs) = '']'' then Some (JArr [], drop 1 (skip_ws cs))
              else (case parse_elements n cs of
                      None \<Rightarrow> None
                    | Some (xs, r) \<Rightarrow> Some (JArr xs, r)))
           else if c = CHR ''{'' then
             (if take 1 (skip_ws cs) = ''}'' then Some (JObj [], drop 1 (skip_ws cs))
              else (case parse_members n cs of
                      None \<Rightarrow> None
                    | Some (kvs, r) \<Rightarrow>
                        (if plain_keys (map fst kvs) then Some (JObj kvs, r) else None)))
           else (case parse_number (c # cs) of
                   None \<Rightarrow> None
                 | Some (x, r) \<Rightarrow> Some (JNum x, r))))"
| "parse_elements 0 s = None"
| "parse_elements (Suc n) s =
     (case parse_value n s of
        None \<Rightarrow> None
      | Some (x, r) \<Rightarrow>
          (if take 1 (skip_ws r) = '','' then
             (case parse_elements n (drop 1 (skip_ws r)) of
                None \<Rightarrow> None
              | Some (xs, r') \<Rightarrow> Some (x # xs, r'))
           else if take 1 (skip_ws r) = '']'' then Some ([x], drop 1 (skip_ws r))
           else None))"
| "parse_members 0 s = None"
| "parse_members (Suc n) s =
     (if take 1 (skip_ws s) \<noteq> [CHR 0x22] then None
      else
        (case parse_chars Plain (drop 1 (skip_ws s)) of
           None \<Rightarrow> None
         | Some (k, r) \<Rightarrow>
             (if take 1 (skip_ws r) \<noteq> '':'' then None
              else
                (case parse_value n (drop 1 (skip_ws r)) of
                   None \<Rightarrow> None
                 | Some (v, r') \<Rightarrow>
                     (if take 1 (skip_ws r') = '','' then
                        (case parse_members n (drop 1 (skip_ws r')) of
                           None \<Rightarrow> None
                         | Some (kvs, r'') \<Rightarrow> Some ((k, v) # kvs, r''))
                      else if take 1 (skip_ws r') = ''}'' then Some ([(k, v)], drop 1 (skip_ws r'))
                      else None)))))"


subsection \<open>Notions for the proof that parsing inverts printing\<close>





subsection \<open>A platform with the modelled JSON built-ins\<close>


section \<open>Properties of the path resolver\<close>

subsection \<open>Splitting, joining and normalising\<close>

lemma split_sep_nonempty: "split_sep c xs \<noteq> []"
  by (induction xs) (auto split: list.splits)

lemma split_sep_append: "split_sep c (xs @ c # ys) = split_sep c xs @ split_sep c ys"
proof (induction xs)
  case Nil
  show ?case by simp
next
  case (Cons x xs)
  show ?case
  proof (cases "x = c")
    case True
    with Cons show ?thesis by simp
  next
    case False
    obtain s ss where s: "split_sep c xs = s # ss"
      using split_sep_nonempty [of c xs] by (cases "split_sep c xs") auto
    with False Cons show ?thesis by simp
  qed
qed

lemma split_sep_notin: "c \<notin> set s \<Longrightarrow> split_sep c s = [s]"
  by (induction s) auto

lemma split_sep_free: "s \<in> set (split_sep c xs) \<Longrightarrow> c \<notin> set s"
proof (induction xs arbitrary: s)
  case Nil
  then show ?case by simp
next
  case (Cons x xs)
  obtain t ts where t: "split_sep c xs = t # ts"
    using split_sep_nonempty [of c xs] by (cases "split_sep c xs") auto
  show ?case
  proof (cases "x = c")
    case True
    with Cons show ?thesis by auto
  next
    case False
    with Cons t show ?thesis by auto
  qed
qed

lemma join_sep_Cons: "ts \<noteq> [] \<Longrightarrow> join_sep (t # ts) = t @ ''/'' @ join_sep ts"
  by (cases ts) auto

lemma join_sep_append:
  "ts \<noteq> [] \<Longrightarrow> rs \<noteq> [] \<Longrightarrow> join_sep (ts @ rs) = join_sep ts @ ''/'' @ join_sep rs"
proof (induction ts rule: join_sep.induct)
  case 1
  then show ?case by simp
next
  case (2 s)
  then show ?case by (simp add: join_sep_Cons)
next
  case (3 s t ts)
  then show ?case by simp
qed

lemma split_sep_join:
  "ts \<noteq> [] \<Longrightarrow> \<forall>t \<in> set ts. CHR ''/'' \<notin> set t \<Longrightarrow> split_sep (CHR ''/'') (join_sep ts) = ts"
proof (induction ts rule: join_sep.induct)
  case 1
  then show ?case by simp
next
  case (2 s)
  then show ?case by (simp add: split_sep_notin)
next
  case (3 s t ts)
  have "split_sep (CHR ''/'') (s @ CHR ''/'' # join_sep (t # ts))
        = split_sep (CHR ''/'') s @ split_sep (CHR ''/'') (join_sep (t # ts))"
    by (rule split_sep_append)
  with 3 show ?case by (simp add: split_sep_notin)
qed

lemma normalizeString_append:
  "normalizeString a res (xs @ ys) = normalizeString a (normalizeString a res xs) ys"
  by (induction xs arbitrary: res) auto

lemma normalizeString_plain:
  "\<forall>s \<in> set ss. plain s \<Longrightarrow> normalizeString a res ss = res @ ss"
  by (induction ss arbitrary: res) (auto simp: plain_def)

lemma normalizeString_result_plain:
  "\<forall>s \<in> set res. plain s \<Longrightarrow> \<forall>s \<in> set ss. CHR ''/'' \<notin> set s \<Longrightarrow>
   \<forall>s \<in> set (normalizeString False res ss). plain s"
proof (induction ss arbitrary: res)
  case Nil
  then show ?case by simp
next
  case (Cons s ss)
  from Cons.prems(2) have ss: "\<forall>s \<in> set ss. CHR ''/'' \<notin> set s" and s: "CHR ''/'' \<notin> set s"
    by simp_all
  have bl: "\<forall>s \<in> set (butlast res). plain s"
    using Cons.prems(1) by (meson in_set_butlastD)
  consider (skip) "s = [] \<or> s = ''.''" | (up) "s = ''..''" | (seg) "s \<noteq> []" "s \<noteq> ''.''" "s \<noteq> ''..''"
    by blast
  then show ?case
  proof cases
    case skip
    then have "normalizeString False res (s # ss) = normalizeString False res ss"
      by auto
    then show ?thesis using Cons.IH [OF Cons.prems(1) ss] by simp
  next
    case up
    show ?thesis
    proof (cases "res \<noteq> [] \<and> last res \<noteq> ''..''")
      case True
      then show ?thesis using Cons.IH [OF bl ss] up by simp
    next
      case False
      then have "normalizeString False res (s # ss) = normalizeString False res ss"
        using up by auto
      then show ?thesis using Cons.IH [OF Cons.prems(1) ss] by simp
    qed
  next
    case seg
    have "plain s" using seg s by (simp add: plain_def)
    then have pl: "\<forall>t \<in> set (res @ [s]). plain t" using Cons.prems(1) by simp
    have "normalizeString False res (s # ss) = normalizeString False (res @ [s]) ss"
      using seg by simp
    then show ?thesis using Cons.IH [OF pl ss] by simp
  qed
qed

lemma is_resolved_shape:
  assumes "is_resolved base"
  obtains ts where "base = ''/'' @ join_sep ts" and "\<forall>t \<in> set ts. plain t"
    and "normalizeString False [] (split_sep (CHR ''/'') base) = ts"
proof -
  from assms have sw: "startsWith base ''/''" and fx: "path_resolve [] [base] = base"
    by (auto simp: is_resolved_def)
  from sw have ne: "base \<noteq> []" by (auto simp: startsWith_def)
  define ts where "ts = normalizeString False [] (split_sep (CHR ''/'') (base @ ''/''))"
  from sw ne fx have r: "base = ''/'' @ join_sep ts"
    by (simp add: path_resolve_def ts_def)
  have sp: "split_sep (CHR ''/'') (base @ ''/'') = split_sep (CHR ''/'') base @ [[]]"
    using split_sep_append [of "CHR ''/''" base "[]"] by simp
  have n: "normalizeString False [] (split_sep (CHR ''/'') base) = ts"
    by (simp add: ts_def sp normalizeString_append)
  have "\<forall>t \<in> set ts. plain t"
    unfolding ts_def
    by (rule normalizeString_result_plain) (auto dest: split_sep_free)
  with r n show ?thesis using that by blast
qed

lemma resolve_loop_abs:
  "startsWith base ''/'' \<Longrightarrow> \<exists>rp. resolve_loop [np, base, wd] [] = (rp, True)"
  by (auto simp: startsWith_def)

lemma resolved_shape:
  assumes "startsWith base ''/''"
  obtains rs where "path_resolve wd [base, np] = ''/'' @ join_sep rs" and "\<forall>t \<in> set rs. plain t"
proof -
  obtain rp where rp: "resolve_loop [np, base, wd] [] = (rp, True)"
    using resolve_loop_abs [OF assms] by blast
  define rs where "rs = normalizeString False [] (split_sep (CHR ''/'') rp)"
  have 1: "path_resolve wd [base, np] = ''/'' @ join_sep rs"
    using rp by (simp add: path_resolve_def rs_def)
  have "\<forall>t \<in> set rs. plain t"
    unfolding rs_def by (rule normalizeString_result_plain) (auto dest: split_sep_free)
  with 1 show ?thesis using that by blast
qed

lemma join_sep_plain_hd:
  assumes "rs \<noteq> []" and "\<forall>t \<in> set rs. plain t"
  shows "join_sep rs \<noteq> [] \<and> \<not> startsWith (join_sep rs) ''/''"
proof -
  from assms(1) obtain t ts where rs: "rs = t # ts" by (cases rs) auto
  with assms(2) have "plain t" by simp
  then obtain c cs where t: "t = c # cs" and c: "c \<noteq> CHR ''/''"
    by (cases t) (auto simp: plain_def)
  obtain u where "join_sep (t # ts) = t @ u" by (cases ts) auto
  with rs t c show ?thesis by (simp add: startsWith_def)
qed

subsection \<open>The resolver against the specification\<close>

text \<open>
  C1. The specification: every path with \<^verbatim>\<open>..\<close> segments that
  lexically leaves the confinement root is rejected, and no filesystem primitive runs. The
  resolver compares strings, \<^verbatim>\<open>resolved.startsWith(baseDir)\<close>, so a sibling of the root whose name
  begins with the root's name passes: with the root \<^verbatim>\<open>/srv/data\<close>, the path
  \<^verbatim>\<open>../data2/secret.txt\<close> resolves to \<^verbatim>\<open>/srv/data2/secret.txt\<close>, outside the root, is accepted,
  and \<^verbatim>\<open>GET /readFile\<close> reads that file.
\<close>

theorem C1_sibling_of_root_accepted:
  "createPathResolver ''/srv'' ''/srv/data'' (JStr ''../data2/secret.txt'') = Inr ''/srv/data2/secret.txt''
   \<and> dispatch sample_platform ''/api/fs'' ''/srv/data''
       \<lparr>req_method = ''GET'', url = ''/api/fs/readFile?path=../data2/secret.txt'', headers = [],
        chunks = [], stream_error = None\<rparr>
       \<lparr>store = [(''/srv/data2/secret.txt'', ''top secret'')], calls = []\<rparr>
     = (Inr (json_response 200 (JObj [(''data'', JStr ''top secret'')])),
        \<lparr>store = [(''/srv/data2/secret.txt'', ''top secret'')],
         calls = [ReadFile ''/srv/data2/secret.txt'' ''utf8'']\<rparr>)"
  by (simp add: dispatch_def createFsHandlers_def handlerKey_of_def routePath_of_def route_part_def
        GET_readFile_def parseQuery_def query_prop_def createPathResolver_def path_resolve_def
        startsWith_def call_fs_def invoke_def json_response_def
        sample_platform_def sample_fs_def sample_URLSearchParams_def name_value_def)

text \<open>
  A path the resolver accepts has the base directory as a prefix of its characters, and a path
  it rejects reaches no filesystem primitive.
\<close>

lemma resolver_accepts_prefix:
  "createPathResolver wd baseDir v = Inr r \<Longrightarrow> prefix baseDir r"
  by (auto simp: createPathResolver_def startsWith_def Let_def split: jsval.splits if_splits)

lemma readFile_rejected_no_io:
  "createPathResolver (cwd pf) baseDir (query_prop (parseQuery pf (url req)) ''path'') = Inl e \<Longrightarrow>
   GET_readFile pf baseDir req w = (Inl e, w)"
  by (simp add: GET_readFile_def)

text \<open>
  C3. The specification: \<^verbatim>\<open>resolve(root, resolve(root, p)) == resolve(root, p)\<close>. It fails
  for every root but \<^verbatim>\<open>/\<close>: the resolver strips the leading separator of its argument and
  treats it as relative, and the result of a resolution is absolute.
\<close>

theorem C3_counterexample:
  "createPathResolver ''/srv'' ''/srv/data'' (JStr ''a/b'') = Inr ''/srv/data/a/b''
   \<and> createPathResolver ''/srv'' ''/srv/data'' (JStr ''/srv/data/a/b'') = Inr ''/srv/data/srv/data/a/b''"
  by (simp add: createPathResolver_def path_resolve_def startsWith_def)

text \<open>
  C3 as amended: for a base directory in the form \<^verbatim>\<open>path.resolve\<close> returns and a path the
  resolver accepts with result \<open>r\<close>, resolving \<open>r\<close> again yields the base directory followed by
  \<open>r\<close>; it yields \<open>r\<close> itself, and the resolver is idempotent, exactly when the base directory
  is \<^verbatim>\<open>/\<close>.
\<close>

theorem C3_resolve_again:
  assumes b: "is_resolved base" and r: "createPathResolver wd base (JStr p) = Inr r"
  shows "createPathResolver wd base (JStr r) = Inr (if base = ''/'' then r else base @ r)"
proof -
  from b obtain ts where base: "base = ''/'' @ join_sep ts" and ts: "\<forall>t \<in> set ts. plain t"
    and nts: "normalizeString False [] (split_sep (CHR ''/'') base) = ts"
    by (rule is_resolved_shape)
  from b have sw: "startsWith base ''/''" by (simp add: is_resolved_def)
  define np where "np = (if startsWith p ''/'' then drop 1 p else p)"
  from r have r1: "r = path_resolve wd [base, np]" and pre: "startsWith r base"
    by (auto simp: createPathResolver_def Let_def np_def split: if_splits)
  obtain rs where rrs: "r = ''/'' @ join_sep rs" and rs: "\<forall>t \<in> set rs. plain t"
    using resolved_shape [OF sw, of wd np] r1 by metis
  have drop: "(if startsWith r ''/'' then drop 1 r else r) = join_sep rs"
    by (simp add: rrs startsWith_def)
  have ts_empty: "ts = [] \<longleftrightarrow> base = ''/''"
    using join_sep_plain_hd [of ts] ts base by auto
  have res: "path_resolve wd [base, join_sep rs] = (if base = ''/'' then r else base @ r)"
  proof (cases "rs = []")
    case True
    with rrs have "r = ''/''" by simp
    with pre sw have b1: "base = ''/''"
      by (cases base) (auto simp: startsWith_def)
    with True rrs show ?thesis
      by (simp add: path_resolve_def startsWith_def)
  next
    case False
    then have j: "join_sep rs \<noteq> []" "\<not> startsWith (join_sep rs) ''/''"
      using join_sep_plain_hd [OF False rs] by auto
    have rl: "resolve_loop [join_sep rs, base, wd] [] = (base @ ''/'' @ join_sep rs @ ''/'', True)"
      using j sw by (auto simp: startsWith_def)
    have "split_sep (CHR ''/'') (base @ ''/'' @ join_sep rs @ ''/'')
          = split_sep (CHR ''/'') base @ split_sep (CHR ''/'') (join_sep rs @ ''/'')"
      using split_sep_append [of "CHR ''/''" base "join_sep rs @ ''/''"] by simp
    also have "split_sep (CHR ''/'') (join_sep rs @ ''/'') = split_sep (CHR ''/'') (join_sep rs) @ [[]]"
      using split_sep_append [of "CHR ''/''" "join_sep rs" "[]"] by simp
    also have "split_sep (CHR ''/'') (join_sep rs) = rs"
      using split_sep_join [OF False] rs by (auto simp: plain_def)
    finally have sp: "split_sep (CHR ''/'') (base @ ''/'' @ join_sep rs @ ''/'')
          = split_sep (CHR ''/'') base @ rs @ [[]]" .
    have "normalizeString False [] (split_sep (CHR ''/'') base @ rs @ [[]]) = ts @ rs"
      by (simp add: normalizeString_append nts normalizeString_plain [OF rs])
    with rl sp have pr: "path_resolve wd [base, join_sep rs] = ''/'' @ join_sep (ts @ rs)"
      by (simp add: path_resolve_def)
    show ?thesis
    proof (cases "ts = []")
      case True
      with pr ts_empty rrs show ?thesis by simp
    next
      case nts: False
      with pr ts_empty base rrs False show ?thesis
        by (simp add: join_sep_append)
    qed
  qed
  define out where "out = (if base = ''/'' then r else base @ r)"
  have sw2: "startsWith out base"
    using pre by (auto simp: startsWith_def out_def)
  have res2: "path_resolve wd [base, join_sep rs] = out"
    using res by (simp add: out_def)
  have "createPathResolver wd base (JStr r) = Inr out"
    unfolding createPathResolver_def jsval.case drop Let_def res2
    using sw2 by simp
  then show ?thesis by (simp add: out_def)
qed


theorem C3_resolve_again_witness:
  "is_resolved ''/srv/data''
   \<and> createPathResolver ''/srv'' ''/srv/data'' (JStr ''a/b'') = Inr ''/srv/data/a/b''
   \<and> createPathResolver ''/srv'' ''/srv/data'' (JStr ''/srv/data/a/b'') = Inr (''/srv/data'' @ ''/srv/data/a/b'')"
proof -
  have b: "is_resolved ''/srv/data''"
    by (simp add: is_resolved_def path_resolve_def startsWith_def)
  have r: "createPathResolver ''/srv'' ''/srv/data'' (JStr ''a/b'') = Inr ''/srv/data/a/b''"
    by (simp add: createPathResolver_def path_resolve_def startsWith_def)
  show ?thesis using b r C3_resolve_again [OF b r] by simp
qed

text \<open>
  C4. For every relative path \<open>p\<close>, one that does not begin with a separator,
  resolving \<^verbatim>\<open>"/" + p\<close> gives what resolving \<open>p\<close> gives: the same path, or the same rejection.
\<close>

theorem C4_leading_separator:
  "\<not> startsWith p ''/'' \<Longrightarrow>
   createPathResolver wd baseDir (JStr (''/'' @ p)) = createPathResolver wd baseDir (JStr p)"
  by (simp add: createPathResolver_def startsWith_def)

theorem C4_leading_separator_witness:
  "\<not> startsWith ''a/b'' ''/''
   \<and> createPathResolver ''/srv'' ''/srv/data'' (JStr (''/'' @ ''a/b'')) = Inr ''/srv/data/a/b''
   \<and> createPathResolver ''/srv'' ''/srv/data'' (JStr ''a/b'') = Inr ''/srv/data/a/b''"
proof -
  have h: "\<not> startsWith ''a/b'' ''/''" by (simp add: startsWith_def)
  have r: "createPathResolver ''/srv'' ''/srv/data'' (JStr ''a/b'') = Inr ''/srv/data/a/b''"
    by (simp add: createPathResolver_def path_resolve_def startsWith_def)
  show ?thesis using h r C4_leading_separator [OF h, of "''/srv''" "''/srv/data''"] by simp
qed


subsection \<open>What the check of the resolver guarantees\<close>

text \<open>
  Every handler invokes at most one primitive, and only on paths the resolver returned: paths
  that have the base directory as a prefix of their characters. A request the resolver
  rejects leaves the world as it was.
\<close>

lemma call_fs_calls:
  "call_fs pf c respond w = (r, w') \<Longrightarrow> calls w' = calls w @ [c]"
  by (auto simp: call_fs_def invoke_def split: prod.splits sum.splits)

lemma one_call_same: "one_call pf baseDir w (r, w)"
  by (simp add: one_call_def)

lemma one_call_fs:
  "list_all (prefix baseDir) (paths_of c) \<Longrightarrow> one_call pf baseDir w (call_fs pf c respond w)"
  by (auto simp: one_call_def)

lemma resolve1_one_call:
  assumes "\<And>p. paths_of (mk p) = [p]"
  shows "one_call pf baseDir w
           (case createPathResolver wd baseDir v of
              Inl e \<Rightarrow> (Inl e, w)
            | Inr fullPath \<Rightarrow> call_fs pf (mk fullPath) respond w)"
proof (cases "createPathResolver wd baseDir v")
  case (Inl e)
  then show ?thesis by (simp add: one_call_same)
next
  case (Inr fullPath)
  then have "prefix baseDir fullPath" by (rule resolver_accepts_prefix)
  with Inr assms show ?thesis by (simp add: one_call_fs)
qed

lemma resolve2_one_call:
  assumes "\<And>p q. paths_of (mk p q) = [p, q]"
  shows "one_call pf baseDir w
           (case createPathResolver wd baseDir v of
              Inl e \<Rightarrow> (Inl e, w)
            | Inr p1 \<Rightarrow>
                (case createPathResolver wd baseDir v' of
                   Inl e \<Rightarrow> (Inl e, w)
                 | Inr p2 \<Rightarrow> call_fs pf (mk p1 p2) respond w))"
proof (cases "createPathResolver wd baseDir v")
  case (Inl e)
  then show ?thesis by (simp add: one_call_same)
next
  case p1: (Inr p1)
  show ?thesis
  proof (cases "createPathResolver wd baseDir v'")
    case (Inl e)
    with p1 show ?thesis by (simp add: one_call_same)
  next
    case p2: (Inr p2)
    have "prefix baseDir p1" "prefix baseDir p2"
      using p1 p2 by (auto dest: resolver_accepts_prefix)
    with p1 p2 assms show ?thesis by (simp add: one_call_fs)
  qed
qed

lemma GET_root_one_call: "one_call pf baseDir w (GET_root pf baseDir req w)"
  by (simp add: GET_root_def one_call_same)

lemma GET_methods_one_call: "one_call pf baseDir w (GET_methods pf baseDir req w)"
  by (simp add: GET_methods_def one_call_same)

lemma GET_readFile_one_call: "one_call pf baseDir w (GET_readFile pf baseDir req w)"
  unfolding GET_readFile_def Let_def
  by (rule resolve1_one_call [where mk = "\<lambda>p. ReadFile p _"]) simp

lemma GET_readdir_one_call: "one_call pf baseDir w (GET_readdir pf baseDir req w)"
  unfolding GET_readdir_def Let_def
  by (rule resolve1_one_call [where mk = "\<lambda>p. Readdir p _"]) simp

lemma GET_stat_one_call: "one_call pf baseDir w (GET_stat pf baseDir req w)"
  unfolding GET_stat_def Let_def
  by (rule resolve1_one_call [where mk = Stat]) simp

lemma GET_lstat_one_call: "one_call pf baseDir w (GET_lstat pf baseDir req w)"
  unfolding GET_lstat_def Let_def
  by (rule resolve1_one_call [where mk = Lstat]) simp

lemma GET_realpath_one_call: "one_call pf baseDir w (GET_realpath pf baseDir req w)"
  unfolding GET_realpath_def Let_def
  by (rule resolve1_one_call [where mk = Realpath]) simp

lemma GET_readlink_one_call: "one_call pf baseDir w (GET_readlink pf baseDir req w)"
  unfolding GET_readlink_def Let_def
  by (rule resolve1_one_call [where mk = Readlink]) simp

lemma POST_writeFile_one_call: "one_call pf baseDir w (POST_writeFile pf baseDir req w)"
proof (cases "getRawBody req")
  case (Inl e)
  then show ?thesis by (simp add: POST_writeFile_def one_call_same)
next
  case (Inr rawBody)
  show ?thesis
  proof (cases "decodeBody pf req rawBody")
    case (Responded x)
    with Inr show ?thesis by (simp add: POST_writeFile_def one_call_same)
  next
    case (Thrown e)
    with Inr show ?thesis by (simp add: POST_writeFile_def one_call_same)
  next
    case (Decoded filePath writeData ty)
    show ?thesis
    proof (cases "writeData = []")
      case True
      with Inr Decoded show ?thesis by (simp add: POST_writeFile_def one_call_same)
    next
      case False
      have "one_call pf baseDir w
              (case createPathResolver (cwd pf) baseDir filePath of
                 Inl e \<Rightarrow> (Inl e, w)
               | Inr fullPath \<Rightarrow>
                   call_fs pf (WriteFile fullPath writeData)
                     (\<lambda>_. json_response 200
                        (JObj [(''message'', JStr ''File written successfully''),
                               (''path'', filePath),
                               (''type'', ty),
                               (''size'', JNum (of_nat (length writeData)))])) w)"
        by (rule resolve1_one_call [where mk = "\<lambda>p. WriteFile p writeData"]) simp
      with Inr Decoded False show ?thesis by (simp add: POST_writeFile_def)
    qed
  qed
qed

lemma POST_appendFile_one_call: "one_call pf baseDir w (POST_appendFile pf baseDir req w)"
proof (cases "getRawBody req")
  case (Inl e)
  then show ?thesis by (simp add: POST_appendFile_def one_call_same)
next
  case (Inr rawBody)
  show ?thesis
  proof (cases "decodeBody pf req rawBody")
    case (Responded x)
    with Inr show ?thesis by (simp add: POST_appendFile_def one_call_same)
  next
    case (Thrown e)
    with Inr show ?thesis by (simp add: POST_appendFile_def one_call_same)
  next
    case (Decoded filePath appendData ty)
    show ?thesis
    proof (cases "appendData = []")
      case True
      with Inr Decoded show ?thesis by (simp add: POST_appendFile_def one_call_same)
    next
      case False
      have "one_call pf baseDir w
              (case createPathResolver (cwd pf) baseDir filePath of
                 Inl e \<Rightarrow> (Inl e, w)
               | Inr fullPath \<Rightarrow>
                   call_fs pf (AppendFile fullPath appendData)
                     (\<lambda>_. json_response 200
                        (JObj [(''message'', JStr ''Data appended successfully''),
                               (''path'', filePath),
                               (''type'', ty),
                               (''size'', JNum (of_nat (length appendData)))])) w)"
        by (rule resolve1_one_call [where mk = "\<lambda>p. AppendFile p appendData"]) simp
      with Inr Decoded False show ?thesis by (simp add: POST_appendFile_def)
    qed
  qed
qed

lemma POST_copyFile_one_call: "one_call pf baseDir w (POST_copyFile pf baseDir req w)"
proof (cases "parseBody pf req ''src''")
  case (Inl e)
  then show ?thesis by (simp add: POST_copyFile_def one_call_same)
next
  case (Inr parsed)
  then show ?thesis
    unfolding POST_copyFile_def Let_def
    by (simp add: resolve2_one_call [where mk = "\<lambda>p q. CopyFile p q _"])
qed

lemma POST_mkdir_one_call: "one_call pf baseDir w (POST_mkdir pf baseDir req w)"
proof (cases "parseBody pf req ''path''")
  case (Inl e)
  then show ?thesis by (simp add: POST_mkdir_def one_call_same)
next
  case (Inr parsed)
  then show ?thesis
    unfolding POST_mkdir_def Let_def
    by (simp add: resolve1_one_call [where mk = "\<lambda>p. Mkdir p _"])
qed

lemma DELETE_rmdir_one_call: "one_call pf baseDir w (DELETE_rmdir pf baseDir req w)"
proof (cases "parseBody pf req ''path''")
  case (Inl e)
  then show ?thesis by (simp add: DELETE_rmdir_def one_call_same)
next
  case (Inr parsed)
  then show ?thesis
    unfolding DELETE_rmdir_def Let_def
    by (simp add: resolve1_one_call [where mk = "\<lambda>p. Rmdir p _"])
qed

lemma DELETE_rm_one_call: "one_call pf baseDir w (DELETE_rm pf baseDir req w)"
proof (cases "parseBody pf req ''path''")
  case (Inl e)
  then show ?thesis by (simp add: DELETE_rm_def one_call_same)
next
  case (Inr parsed)
  then show ?thesis
    unfolding DELETE_rm_def Let_def
    by (simp add: resolve1_one_call [where mk = "\<lambda>p. Rm p _ _"])
qed

lemma PUT_rename_one_call: "one_call pf baseDir w (PUT_rename pf baseDir req w)"
proof (cases "parseBody pf req ''oldPath''")
  case (Inl e)
  then show ?thesis by (simp add: PUT_rename_def one_call_same)
next
  case (Inr parsed)
  then show ?thesis
    unfolding PUT_rename_def Let_def
    by (simp add: resolve2_one_call [where mk = Rename])
qed

lemma DELETE_unlink_one_call: "one_call pf baseDir w (DELETE_unlink pf baseDir req w)"
proof (cases "parseBody pf req ''path''")
  case (Inl e)
  then show ?thesis by (simp add: DELETE_unlink_def one_call_same)
next
  case (Inr parsed)
  then show ?thesis
    unfolding DELETE_unlink_def Let_def
    by (simp add: resolve1_one_call [where mk = Unlink])
qed

lemmas handlers_one_call =
  GET_root_one_call GET_methods_one_call GET_readFile_one_call GET_readdir_one_call
  GET_stat_one_call GET_lstat_one_call GET_realpath_one_call GET_readlink_one_call
  POST_writeFile_one_call POST_appendFile_one_call POST_copyFile_one_call POST_mkdir_one_call
  DELETE_rmdir_one_call DELETE_rm_one_call PUT_rename_one_call DELETE_unlink_one_call

lemma selected_one_call:
  assumes "map_of (createFsHandlers pf baseDir) k = Some handler"
  shows "one_call pf baseDir w (handler req w)"
proof -
  from assms have "(k, handler) \<in> set (createFsHandlers pf baseDir)"
    by (rule map_of_SomeD)
  then have "handler \<in> snd ` set (createFsHandlers pf baseDir)"
    by force
  then show ?thesis
    unfolding createFsHandlers_def
    by (auto simp: handlers_one_call)
qed

lemma dispatch_one_call: "one_call pf baseDir w (dispatch pf pre baseDir req w)"
proof (cases "map_of (createFsHandlers pf baseDir) (handlerKey_of pre req)")
  case None
  then show ?thesis by (simp add: dispatch_def one_call_same)
next
  case (Some handler)
  then show ?thesis
    using selected_one_call [OF Some, of w req] by (simp add: dispatch_def)
qed

lemma one_call_confined:
  assumes "one_call pf baseDir w (r, w')"
  shows "confined baseDir w w'"
  using assms call_fs_calls [of pf _ _ w r w']
  by (auto simp: one_call_def confined_def)

lemma dispatch_confined:
  assumes "dispatch pf pre baseDir req w = (r, w')"
  shows "confined baseDir w w'"
  using dispatch_one_call [of pf baseDir w pre req] assms
  by (auto intro: one_call_confined)

text \<open>
  When the primitive a handler invokes fails, the failure is the outcome of the handler.
\<close>

lemma one_call_fs_fails:
  assumes oc: "one_call pf baseDir w out"
    and inv: "calls (snd out) = calls w @ [c]"
    and fails: "fs_exec pf c (store w) = (Inl e, st)"
  shows "out = (Inl e, \<lparr>store = st, calls = calls w @ [c]\<rparr>)"
proof -
  from inv have "snd out \<noteq> w" by auto
  with oc obtain c' respond where out: "out = call_fs pf c' respond w"
    by (auto simp: one_call_def)
  obtain r w' where rw: "call_fs pf c' respond w = (r, w')"
    by (cases "call_fs pf c' respond w")
  from call_fs_calls [OF rw] inv out rw have "c' = c" by simp
  with out fails show ?thesis by (simp add: call_fs_def invoke_def)
qed

section \<open>Properties of the write and append handlers\<close>

lemma status_bad_request: "status (bad_request msg) = 400"
  by (simp add: bad_request_def json_response_def)

lemma status_json_response: "status (json_response code v) = code"
  by (simp add: json_response_def)

lemma call_fs_cases:
  obtains (threw) e w' where "call_fs pf c respond w = (Inl e, w')"
  | (returned) v w' where "call_fs pf c respond w = (Inr (respond v), w')"
proof (cases "invoke pf c w")
  case (Pair r w')
  then show ?thesis
    by (cases r) (auto simp: call_fs_def intro: threw returned)
qed

lemma decodeBody_empty:
  "decodeBody pf req [] = Responded (bad_request ''Empty request body'')
   \<or> (\<exists>filePath ty. decodeBody pf req [] = Decoded filePath [] ty)"
  by (simp add: decodeBody_def decodeStructured_def Let_def)

lemma writeFile_rejects:
  assumes raw: "getRawBody req = Inr rawBody"
    and bad: "(\<exists>r. decodeBody pf req rawBody = Responded r \<and> status r = 400)
              \<or> (\<exists>filePath ty. decodeBody pf req rawBody = Decoded filePath [] ty)"
  shows "\<exists>r. POST_writeFile pf baseDir req w = (Inr r, w) \<and> status r = 400"
  using raw bad by (auto simp: POST_writeFile_def status_bad_request)

lemma appendFile_rejects:
  assumes raw: "getRawBody req = Inr rawBody"
    and bad: "(\<exists>r. decodeBody pf req rawBody = Responded r \<and> status r = 400)
              \<or> (\<exists>filePath ty. decodeBody pf req rawBody = Decoded filePath [] ty)"
  shows "\<exists>r. POST_appendFile pf baseDir req w = (Inr r, w) \<and> status r = 400"
  using raw bad by (auto simp: POST_appendFile_def status_bad_request)

text \<open>
  C2. A \<^verbatim>\<open>POST /writeFile\<close> request whose body has no bytes, or whose decoded
  payload has none, whatever its content type, is answered with status 400, and the world is
  as before: no primitive was invoked and no file was created or changed.
\<close>

theorem C2_empty_payload_rejected:
  assumes raw: "getRawBody req = Inr rawBody"
    and empty: "rawBody = [] \<or> (\<exists>filePath ty. decodeBody pf req rawBody = Decoded filePath [] ty)"
  shows "\<exists>r. POST_writeFile pf baseDir req w = (Inr r, w) \<and> status r = 400"
proof (rule writeFile_rejects [OF raw])
  from empty decodeBody_empty [of pf req]
  show "(\<exists>r. decodeBody pf req rawBody = Responded r \<and> status r = 400)
        \<or> (\<exists>filePath ty. decodeBody pf req rawBody = Decoded filePath [] ty)"
    by (auto simp: status_bad_request)
qed

theorem C2_empty_payload_rejected_witness:
  "getRawBody \<lparr>req_method = ''POST'', url = ''/api/fs/writeFile?path=empty.txt'',
      headers = [(''content-type'', ''text/plain'')], chunks = [], stream_error = None\<rparr> = Inr []
   \<and> (\<exists>r. POST_writeFile sample_platform ''/srv/data''
          \<lparr>req_method = ''POST'', url = ''/api/fs/writeFile?path=empty.txt'',
           headers = [(''content-type'', ''text/plain'')], chunks = [], stream_error = None\<rparr>
          empty_world = (Inr r, empty_world) \<and> status r = 400)"
proof -
  let ?req = "\<lparr>req_method = ''POST'', url = ''/api/fs/writeFile?path=empty.txt'',
      headers = [(''content-type'', ''text/plain'')], chunks = [], stream_error = None\<rparr>"
  have raw: "getRawBody ?req = Inr []" by (simp add: getRawBody_def)
  have empty: "[] = ([] :: bytes) \<or> (\<exists>filePath ty. decodeBody sample_platform ?req [] = Decoded filePath [] ty)"
    by simp
  show ?thesis
    using raw C2_empty_payload_rejected [OF raw empty, of "''/srv/data''" empty_world] by simp
qed

text \<open>
  C6. The specification gives the raw body the tag \<^verbatim>\<open>json\<close> whenever the content type is
  \<^verbatim>\<open>application/json\<close> and a path query parameter is present. The handlers test the parameter
  for truthiness: with \<^verbatim>\<open>?path=\<close> the parameter is present and empty, and the body is decoded as
  a structured body instead.
\<close>

theorem C6_counterexample:
  "parseQuery sample_platform ''/api/fs/writeFile?path='' ''path'' = Some []
   \<and> decodeBody sample_platform
       \<lparr>req_method = ''POST'', url = ''/api/fs/writeFile?path='',
        headers = [(''content-type'', ''application/json'')],
        chunks = [''{\"path\":\"a.txt\",\"data\":\"hi\"}''], stream_error = None\<rparr>
       ''{\"path\":\"a.txt\",\"data\":\"hi\"}''
     = Decoded (JStr ''a.txt'') ''hi'' (JStr ''text'')"
  by (simp add: decodeBody_def decodeStructured_def encodePayload_def content_type_of_def
        is_binary_type_def parseQuery_def query_prop_def read_prop_def dflt_def
        sample_platform_def sample_URLSearchParams_def name_value_def sample_JSON_parse_def
        sample_texts_def sample_Buffer_from_def john_def john_text_def)

text \<open>
  C6 as amended: with \<open>contentType\<close> the declared content type and top-to-bottom precedence,
  matching by substring, the decoder of both handlers yields the raw body with the tag
  \<^verbatim>\<open>binary\<close> when the content type contains \<^verbatim>\<open>application/octet-stream\<close>, \<^verbatim>\<open>image/\<close>, \<^verbatim>\<open>video/\<close>,
  \<^verbatim>\<open>audio/\<close> or \<^verbatim>\<open>application/pdf\<close>; with the tag \<^verbatim>\<open>text\<close> when it contains \<^verbatim>\<open>text/plain\<close>; with
  the tag \<^verbatim>\<open>json\<close> when it contains \<^verbatim>\<open>application/json\<close> and the path query parameter is present
  and not empty; with the tag \<^verbatim>\<open>unknown\<close> when it contains none of these. The target path is
  the path query parameter in each of these rows.
\<close>

theorem C6_decision_table:
  "(is_binary_type (content_type_of req) \<longrightarrow>
      decodeBody pf req rawBody =
        Decoded (query_prop (parseQuery pf (url req)) ''path'') rawBody (JStr ''binary''))
   \<and> (\<not> is_binary_type (content_type_of req) \<and> str_includes (content_type_of req) ''text/plain'' \<longrightarrow>
      decodeBody pf req rawBody =
        Decoded (query_prop (parseQuery pf (url req)) ''path'') rawBody (JStr ''text''))
   \<and> (\<not> is_binary_type (content_type_of req) \<and> \<not> str_includes (content_type_of req) ''text/plain''
        \<and> str_includes (content_type_of req) ''application/json''
        \<and> parseQuery pf (url req) ''path'' = Some p \<and> p \<noteq> [] \<longrightarrow>
      decodeBody pf req rawBody = Decoded (JStr p) rawBody (JStr ''json''))
   \<and> (\<not> is_binary_type (content_type_of req) \<and> \<not> str_includes (content_type_of req) ''text/plain''
        \<and> \<not> str_includes (content_type_of req) ''application/json'' \<longrightarrow>
      decodeBody pf req rawBody =
        Decoded (query_prop (parseQuery pf (url req)) ''path'') rawBody (JStr ''unknown''))"
  by (simp add: decodeBody_def Let_def query_prop_def)

theorem C6_decision_table_witness:
  "(is_binary_type (content_type_of \<lparr>req_method = ''POST'', url = ''/api/fs/writeFile?path=p.png'',
        headers = [(''content-type'', ''image/png'')], chunks = [''x''], stream_error = None\<rparr>)
    \<and> decodeBody sample_platform \<lparr>req_method = ''POST'', url = ''/api/fs/writeFile?path=p.png'',
        headers = [(''content-type'', ''image/png'')], chunks = [''x''], stream_error = None\<rparr> ''x''
      = Decoded (JStr ''p.png'') ''x'' (JStr ''binary''))
   \<and> (str_includes (content_type_of \<lparr>req_method = ''POST'', url = ''/api/fs/appendFile?path=t.txt'',
        headers = [(''content-type'', ''text/plain; charset=utf-8'')], chunks = [''x''], stream_error = None\<rparr>)
        ''text/plain''
    \<and> decodeBody sample_platform \<lparr>req_method = ''POST'', url = ''/api/fs/appendFile?path=t.txt'',
        headers = [(''content-type'', ''text/plain; charset=utf-8'')], chunks = [''x''], stream_error = None\<rparr> ''x''
      = Decoded (JStr ''t.txt'') ''x'' (JStr ''text''))
   \<and> (parseQuery sample_platform ''/api/fs/writeFile?path=j.json'' ''path'' = Some ''j.json''
    \<and> decodeBody sample_platform \<lparr>req_method = ''POST'', url = ''/api/fs/writeFile?path=j.json'',
        headers = [(''content-type'', ''application/json'')], chunks = [''12''], stream_error = None\<rparr> ''12''
      = Decoded (JStr ''j.json'') ''12'' (JStr ''json''))
   \<and> decodeBody sample_platform \<lparr>req_method = ''POST'', url = ''/api/fs/writeFile?path=u.xml'',
        headers = [(''content-type'', ''application/xml'')], chunks = [''x''], stream_error = None\<rparr> ''x''
      = Decoded (JStr ''u.xml'') ''x'' (JStr ''unknown'')"
proof -
  let ?b = "\<lparr>req_method = ''POST'', url = ''/api/fs/writeFile?path=p.png'',
        headers = [(''content-type'', ''image/png'')], chunks = [''x''], stream_error = None\<rparr>"
  let ?t = "\<lparr>req_method = ''POST'', url = ''/api/fs/appendFile?path=t.txt'',
        headers = [(''content-type'', ''text/plain; charset=utf-8'')], chunks = [''x''], stream_error = None\<rparr>"
  let ?j = "\<lparr>req_method = ''POST'', url = ''/api/fs/writeFile?path=j.json'',
        headers = [(''content-type'', ''application/json'')], chunks = [''12''], stream_error = None\<rparr>"
  let ?u = "\<lparr>req_method = ''POST'', url = ''/api/fs/writeFile?path=u.xml'',
        headers = [(''content-type'', ''application/xml'')], chunks = [''x''], stream_error = None\<rparr>"
  have q: "parseQuery sample_platform ''/api/fs/writeFile?path=p.png'' ''path'' = Some ''p.png''"
     "parseQuery sample_platform ''/api/fs/appendFile?path=t.txt'' ''path'' = Some ''t.txt''"
     "parseQuery sample_platform ''/api/fs/writeFile?path=j.json'' ''path'' = Some ''j.json''"
     "parseQuery sample_platform ''/api/fs/writeFile?path=u.xml'' ''path'' = Some ''u.xml''"
    by (simp_all add: parseQuery_def sample_platform_def sample_URLSearchParams_def name_value_def)
  have b: "is_binary_type (content_type_of ?b)"
    by (simp add: is_binary_type_def content_type_of_def)
  have t: "\<not> is_binary_type (content_type_of ?t)" "str_includes (content_type_of ?t) ''text/plain''"
    by (simp_all add: is_binary_type_def content_type_of_def)
  have j: "\<not> is_binary_type (content_type_of ?j)" "\<not> str_includes (content_type_of ?j) ''text/plain''"
      "str_includes (content_type_of ?j) ''application/json''"
    by (simp_all add: is_binary_type_def content_type_of_def)
  have u: "\<not> is_binary_type (content_type_of ?u)" "\<not> str_includes (content_type_of ?u) ''text/plain''"
      "\<not> str_includes (content_type_of ?u) ''application/json''"
    by (simp_all add: is_binary_type_def content_type_of_def)
  show ?thesis
    using q b t j u
      C6_decision_table [of ?b sample_platform "''x''" "''p.png''"]
      C6_decision_table [of ?t sample_platform "''x''" "''t.txt''"]
      C6_decision_table [of ?j sample_platform "''12''" "''j.json''"]
      C6_decision_table [of ?u sample_platform "''x''" "''u.xml''"]
    by (simp add: query_prop_def)
qed

lemma decodeStructured_status:
  "decodeStructured pf rawBody = Responded r \<Longrightarrow> status r = 400"
  by (auto simp: decodeStructured_def Let_def status_bad_request split: if_splits sum.splits)

lemma decodeStructured_bad:
  "((\<exists>r. decodeStructured pf rawBody = Responded r)
     \<or> (\<exists>filePath ty. decodeStructured pf rawBody = Decoded filePath [] ty))
   = (rawBody = [] \<or>
      (\<exists>parsed. JSON_parse pf (Buffer_toString pf rawBody) = Inr parsed
         \<and> parsed \<noteq> JUndefined \<and> parsed \<noteq> JNull
         \<and> (\<not> truthy (field parsed ''path'')
            \<or> field parsed ''data'' = JUndefined \<or> field parsed ''data'' = JNull
            \<or> encodePayload pf (field parsed ''data'') (dflt (field parsed ''type'') (JStr ''text''))
                 (dflt (field parsed ''encoding'') (JStr ''utf8'')) = Inr [])))"
proof (cases "rawBody = []")
  case True
  then show ?thesis by (simp add: decodeStructured_def)
next
  case ne: False
  show ?thesis
  proof (cases "JSON_parse pf (Buffer_toString pf rawBody)")
    case (Inl e)
    with ne show ?thesis by (simp add: decodeStructured_def)
  next
    case (Inr parsed)
    show ?thesis
    proof (cases "parsed = JUndefined \<or> parsed = JNull")
      case True
      with ne Inr show ?thesis by (auto simp: decodeStructured_def read_prop_def)
    next
      case False
      then have rp: "read_prop parsed ''path'' = Inr (field parsed ''path'')"
        by (simp add: read_prop_def)
      show ?thesis
      proof (cases "encodePayload pf (field parsed ''data'') (dflt (field parsed ''type'') (JStr ''text''))
                 (dflt (field parsed ''encoding'') (JStr ''utf8''))")
        case (Inl e)
        with ne Inr False rp show ?thesis
          by (simp add: decodeStructured_def Let_def)
      next
        case payload: (Inr payload)
        with ne Inr False rp show ?thesis
          by (simp add: decodeStructured_def Let_def)
      qed
    qed
  qed
qed

lemma writeFile_bad_request:
  assumes "getRawBody req = Inr rawBody"
  shows "(\<exists>r w'. POST_writeFile pf baseDir req w = (Inr r, w') \<and> status r = 400)
         = ((\<exists>r. decodeBody pf req rawBody = Responded r \<and> status r = 400)
            \<or> (\<exists>filePath ty. decodeBody pf req rawBody = Decoded filePath [] ty))"
proof (cases "decodeBody pf req rawBody")
  case (Responded r)
  with assms show ?thesis by (simp add: POST_writeFile_def)
next
  case (Thrown e)
  with assms show ?thesis by (simp add: POST_writeFile_def)
next
  case (Decoded filePath payload ty)
  show ?thesis
  proof (cases "payload = []")
    case True
    with assms Decoded show ?thesis by (simp add: POST_writeFile_def status_bad_request)
  next
    case ne: False
    show ?thesis
    proof (cases "createPathResolver (cwd pf) baseDir filePath")
      case (Inl e)
      with assms Decoded ne show ?thesis by (simp add: POST_writeFile_def)
    next
      case (Inr fullPath)
      let ?respond = "\<lambda>_ :: jsval. json_response 200
                            (JObj [(''message'', JStr ''File written successfully''),
                                   (''path'', filePath),
                                   (''type'', ty),
                                   (''size'', JNum (of_nat (length payload)))])"
      have "\<not> (\<exists>r w'. call_fs pf (WriteFile fullPath payload) ?respond w = (Inr r, w') \<and> status r = 400)"
        by (cases pf "WriteFile fullPath payload" ?respond w rule: call_fs_cases)
           (auto simp: status_json_response)
      with assms Decoded ne Inr show ?thesis by (simp add: POST_writeFile_def)
    qed
  qed
qed

lemma appendFile_bad_request:
  assumes "getRawBody req = Inr rawBody"
  shows "(\<exists>r w'. POST_appendFile pf baseDir req w = (Inr r, w') \<and> status r = 400)
         = ((\<exists>r. decodeBody pf req rawBody = Responded r \<and> status r = 400)
            \<or> (\<exists>filePath ty. decodeBody pf req rawBody = Decoded filePath [] ty))"
proof (cases "decodeBody pf req rawBody")
  case (Responded r)
  with assms show ?thesis by (simp add: POST_appendFile_def)
next
  case (Thrown e)
  with assms show ?thesis by (simp add: POST_appendFile_def)
next
  case (Decoded filePath payload ty)
  show ?thesis
  proof (cases "payload = []")
    case True
    with assms Decoded show ?thesis by (simp add: POST_appendFile_def status_bad_request)
  next
    case ne: False
    show ?thesis
    proof (cases "createPathResolver (cwd pf) baseDir filePath")
      case (Inl e)
      with assms Decoded ne show ?thesis by (simp add: POST_appendFile_def)
    next
      case (Inr fullPath)
      let ?respond = "\<lambda>_ :: jsval. json_response 200
                            (JObj [(''message'', JStr ''Data appended successfully''),
                                   (''path'', filePath),
                                   (''type'', ty),
                                   (''size'', JNum (of_nat (length payload)))])"
      have "\<not> (\<exists>r w'. call_fs pf (AppendFile fullPath payload) ?respond w = (Inr r, w') \<and> status r = 400)"
        by (cases pf "AppendFile fullPath payload" ?respond w rule: call_fs_cases)
           (auto simp: status_json_response)
      with assms Decoded ne Inr show ?thesis by (simp add: POST_appendFile_def)
    qed
  qed
qed

lemma structured_decode:
  assumes "\<not> is_binary_type (content_type_of req)"
    and "\<not> str_includes (content_type_of req) ''text/plain''"
    and "str_includes (content_type_of req) ''application/json''"
    and "\<not> truthy (query_prop (parseQuery pf (url req)) ''path'')"
  shows "decodeBody pf req rawBody = decodeStructured pf rawBody"
  using assms by (simp add: decodeBody_def Let_def)

text \<open>
  C8. The specification: a structured-body request fails with status 400 exactly when the
  raw body is empty, \<^verbatim>\<open>path\<close> is absent, or \<^verbatim>\<open>data\<close> is null or absent. The handlers also answer
  400 when the payload decoded from \<^verbatim>\<open>data\<close> has no bytes: the body
  \<^verbatim>\<open>{"path":"a.txt","data":""}\<close> is not empty, has a path and has data that is neither null nor
  absent, and is answered with 400.
\<close>

theorem C8_counterexample:
  "POST_writeFile sample_platform ''/srv/data''
     \<lparr>req_method = ''POST'', url = ''/api/fs/writeFile'',
      headers = [(''content-type'', ''application/json'')],
      chunks = [''{\"path\":\"a.txt\",\"data\":\"\"}''], stream_error = None\<rparr> empty_world
     = (Inr (bad_request ''No data to write''), empty_world)
   \<and> status (bad_request ''No data to write'') = 400
   \<and> JSON_parse sample_platform ''{\"path\":\"a.txt\",\"data\":\"\"}''
       = Inr (JObj [(''path'', JStr ''a.txt''), (''data'', JStr [])])"
  by (simp add: POST_writeFile_def getRawBody_def decodeBody_def decodeStructured_def
        encodePayload_def content_type_of_def is_binary_type_def parseQuery_def query_prop_def
        read_prop_def dflt_def bad_request_def json_response_def
        sample_platform_def sample_JSON_parse_def sample_texts_def sample_Buffer_from_def
        john_def john_text_def)

text \<open>
  C8 as amended: for a write or append request with content type \<^verbatim>\<open>application/json\<close> and no
  (or an empty) path query parameter, the response has status 400 exactly when the raw body
  is empty, or the body parses to a value other than \<^verbatim>\<open>null\<close> whose \<^verbatim>\<open>path\<close> is absent or falsy,
  or whose \<^verbatim>\<open>data\<close> is null or absent, or whose decoded payload has no bytes; and whenever the
  response has status 400 the world is as before: no filesystem primitive was invoked.
\<close>

theorem C8_structured_bad_request:
  assumes ct: "\<not> is_binary_type (content_type_of req)"
      "\<not> str_includes (content_type_of req) ''text/plain''"
      "str_includes (content_type_of req) ''application/json''"
    and q: "\<not> truthy (query_prop (parseQuery pf (url req)) ''path'')"
    and raw: "getRawBody req = Inr rawBody"
  shows
    "(let bad =
        (rawBody = [] \<or>
         (\<exists>parsed. JSON_parse pf (Buffer_toString pf rawBody) = Inr parsed
            \<and> parsed \<noteq> JUndefined \<and> parsed \<noteq> JNull
            \<and> (\<not> truthy (field parsed ''path'')
               \<or> field parsed ''data'' = JUndefined \<or> field parsed ''data'' = JNull
               \<or> encodePayload pf (field parsed ''data'') (dflt (field parsed ''type'') (JStr ''text''))
                    (dflt (field parsed ''encoding'') (JStr ''utf8'')) = Inr [])))
      in (\<exists>r w'. POST_writeFile pf baseDir req w = (Inr r, w') \<and> status r = 400) = bad
       \<and> (\<exists>r. POST_writeFile pf baseDir req w = (Inr r, w) \<and> status r = 400) = bad
       \<and> (\<exists>r w'. POST_appendFile pf baseDir req w = (Inr r, w') \<and> status r = 400) = bad
       \<and> (\<exists>r. POST_appendFile pf baseDir req w = (Inr r, w) \<and> status r = 400) = bad)"
proof -
  let ?bad = "(\<exists>r. decodeBody pf req rawBody = Responded r \<and> status r = 400)
              \<or> (\<exists>filePath ty. decodeBody pf req rawBody = Decoded filePath [] ty)"
  have d: "decodeBody pf req rawBody = decodeStructured pf rawBody"
    by (rule structured_decode [OF ct q])
  have "?bad = ((\<exists>r. decodeStructured pf rawBody = Responded r)
                \<or> (\<exists>filePath ty. decodeStructured pf rawBody = Decoded filePath [] ty))"
    unfolding d using decodeStructured_status [of pf rawBody] by blast
  then have b: "?bad = (rawBody = [] \<or>
         (\<exists>parsed. JSON_parse pf (Buffer_toString pf rawBody) = Inr parsed
            \<and> parsed \<noteq> JUndefined \<and> parsed \<noteq> JNull
            \<and> (\<not> truthy (field parsed ''path'')
               \<or> field parsed ''data'' = JUndefined \<or> field parsed ''data'' = JNull
               \<or> encodePayload pf (field parsed ''data'') (dflt (field parsed ''type'') (JStr ''text''))
                    (dflt (field parsed ''encoding'') (JStr ''utf8'')) = Inr [])))"
    by (simp only: decodeStructured_bad)
  have w1: "(\<exists>r w'. POST_writeFile pf baseDir req w = (Inr r, w') \<and> status r = 400) = ?bad"
    by (rule writeFile_bad_request [OF raw])
  have w2: "(\<exists>r. POST_writeFile pf baseDir req w = (Inr r, w) \<and> status r = 400) = ?bad"
    using w1 writeFile_rejects [OF raw, of pf baseDir w] by blast
  have a1: "(\<exists>r w'. POST_appendFile pf baseDir req w = (Inr r, w') \<and> status r = 400) = ?bad"
    by (rule appendFile_bad_request [OF raw])
  have a2: "(\<exists>r. POST_appendFile pf baseDir req w = (Inr r, w) \<and> status r = 400) = ?bad"
    using a1 appendFile_rejects [OF raw, of pf baseDir w] by blast
  show ?thesis
    unfolding Let_def using w1 w2 a1 a2 b by (simp only: simp_thms)
qed

theorem C8_structured_bad_request_witness:
  "\<not> is_binary_type ''application/json''
   \<and> str_includes ''application/json'' ''application/json''
   \<and> parseQuery sample_platform ''/api/fs/writeFile'' ''path'' = None
   \<and> JSON_parse sample_platform ''{\"data\":\"hi\"}'' = Inr (JObj [(''data'', JStr ''hi'')])
   \<and> (\<exists>r. POST_writeFile sample_platform ''/srv/data''
          \<lparr>req_method = ''POST'', url = ''/api/fs/writeFile'',
           headers = [(''content-type'', ''application/json'')],
           chunks = [''{\"data\":\"hi\"}''], stream_error = None\<rparr> empty_world
        = (Inr r, empty_world) \<and> status r = 400)"
proof -
  let ?req = "\<lparr>req_method = ''POST'', url = ''/api/fs/writeFile'',
           headers = [(''content-type'', ''application/json'')],
           chunks = [''{\"data\":\"hi\"}''], stream_error = None\<rparr>"
  have ct: "\<not> is_binary_type (content_type_of ?req)"
      "\<not> str_includes (content_type_of ?req) ''text/plain''"
      "str_includes (content_type_of ?req) ''application/json''"
    by (simp_all add: is_binary_type_def content_type_of_def)
  have pq: "parseQuery sample_platform ''/api/fs/writeFile'' ''path'' = None"
    by (simp add: parseQuery_def)
  then have q: "\<not> truthy (query_prop (parseQuery sample_platform (url ?req)) ''path'')"
    by (simp add: query_prop_def)
  have raw: "getRawBody ?req = Inr ''{\"data\":\"hi\"}''"
    by (simp add: getRawBody_def)
  have p: "JSON_parse sample_platform ''{\"data\":\"hi\"}'' = Inr (JObj [(''data'', JStr ''hi'')])"
    by (simp add: sample_platform_def sample_JSON_parse_def sample_texts_def john_def john_text_def)
  have bt: "Buffer_toString sample_platform = (\<lambda>b. b)"
    by (simp add: sample_platform_def)
  from C8_structured_bad_request [OF ct q raw, of "''/srv/data''" empty_world]
  have "\<exists>r. POST_writeFile sample_platform ''/srv/data'' ?req empty_world = (Inr r, empty_world)
          \<and> status r = 400"
    unfolding Let_def using p by (simp add: bt)
  with ct pq p show ?thesis by (simp add: content_type_of_def)
qed


section \<open>Parsing inverts printing\<close>

subsection \<open>Numbers\<close>

















subsection \<open>Strings\<close>





subsection \<open>Values\<close>





lemma parse_members_skip: "skip_ws s = skip_ws t \<Longrightarrow> parse_members n s = parse_members n t"
  by (cases n) simp_all
































section \<open>Writing a structured JSON body and reading it back\<close>








section \<open>Properties of the entry points\<close>

subsection \<open>The route table\<close>

lemma handler_keys:
  "map fst (createFsHandlers pf baseDir) = map (\<lambda>(m, p). m @ '' '' @ p) spec_route_table"
  by (simp add: createFsHandlers_def spec_route_table_def)

lemma spec_route_table_no_space:
  "(m, p) \<in> set spec_route_table \<Longrightarrow> CHR '' '' \<notin> set m \<and> CHR '' '' \<notin> set p"
  by (auto simp: spec_route_table_def)

lemma route_key_inj:
  "CHR '' '' \<notin> set m \<Longrightarrow> CHR '' '' \<notin> set p \<Longrightarrow> m' @ '' '' @ p' = m @ '' '' @ p \<Longrightarrow>
   m' = m \<and> p' = p"
proof (induction m arbitrary: m')
  case Nil
  then show ?case by (cases m') auto
next
  case (Cons a m)
  then show ?case by (cases m') auto
qed

lemma handler_selected_iff:
  "(map_of (createFsHandlers pf baseDir) (handlerKey_of pre req) \<noteq> None)
   = ((req_method req, route_part (routePath_of pre req)) \<in> set spec_route_table)"
proof -
  have "(map_of (createFsHandlers pf baseDir) (handlerKey_of pre req) \<noteq> None)
        = (handlerKey_of pre req \<in> set (map fst (createFsHandlers pf baseDir)))"
    by (simp add: map_of_eq_None_iff)
  also have "\<dots> = (\<exists>(m, p) \<in> set spec_route_table.
                 req_method req @ '' '' @ route_part (routePath_of pre req) = m @ '' '' @ p)"
    unfolding handler_keys handlerKey_of_def by auto
  also have "\<dots> = ((req_method req, route_part (routePath_of pre req)) \<in> set spec_route_table)"
    using route_key_inj spec_route_table_no_space by blast
  finally show ?thesis .
qed

lemma dispatch_not_found:
  "(req_method req, route_part (routePath_of pre req)) \<notin> set spec_route_table \<Longrightarrow>
   dispatch pf pre baseDir req w = (Inr not_found, w)"
  using handler_selected_iff [of pf baseDir pre req] by (auto simp: dispatch_def)

text \<open>
  C9. The specification: every request under the prefix whose method and route path are
  not in the route table gets 404. The \<^verbatim>\<open>withfs\<close> server answers every \<^verbatim>\<open>OPTIONS\<close> request with a
  bare 200 before it looks at the URL.
\<close>

theorem C9_counterexample:
  "startsWith ''/api/fs/nope'' ''/api/fs''
   \<and> (''OPTIONS'', ''/nope'') \<notin> set spec_route_table
   \<and> withfs_server sample_platform \<lparr>apiPrefix = ''/api/fs'', justFs = True, BASE_DIR = ''/srv/data''\<rparr>
       (\<lambda>req w. (Inr not_found, w))
       \<lparr>req_method = ''OPTIONS'', url = ''/api/fs/nope'', headers = [], chunks = [], stream_error = None\<rparr>
       empty_world
     = (\<lparr>status = 200, res_headers = cors_headers, res_body = JUndefined\<rparr>, empty_world)"
  by (simp add: startsWith_def spec_route_table_def withfs_server_def)

text \<open>
  C9 as amended: for every request under the prefix that reaches the dispatch (every request
  in the Vite middleware, every request but \<^verbatim>\<open>OPTIONS\<close> in the \<^verbatim>\<open>withfs\<close> server) whose method and
  route path without query string are not in the route table, the response is 404 with the
  body \<^verbatim>\<open>{error: "Route not found"}\<close>; no handler is selected and the world is as before.
\<close>

theorem C9_unmatched_route:
  assumes pre: "startsWith (url req) pre"
    and nk: "(req_method req, route_part (routePath_of pre req)) \<notin> set spec_route_table"
  shows "map_of (createFsHandlers pf baseDir) (handlerKey_of pre req) = None
     \<and> vite_middleware pf pre baseDir req w = (Some not_found, w)
     \<and> (req_method req \<noteq> ''OPTIONS'' \<longrightarrow>
          withfs_server pf \<lparr>apiPrefix = pre, justFs = j, BASE_DIR = baseDir\<rparr> serveStaticFile req w
            = (with_cors not_found, w))
     \<and> status not_found = 404
     \<and> res_body not_found = JObj [(''error'', JStr ''Route not found'')]"
  using pre dispatch_not_found [OF nk, of pf baseDir w] handler_selected_iff [of pf baseDir pre req] nk
  by (simp add: vite_middleware_def withfs_server_def not_found_def json_response_def)

theorem C9_unmatched_route_witness:
  "startsWith ''/api/fs/nope?x=1'' ''/api/fs''
   \<and> (''GET'', ''/nope'') \<notin> set spec_route_table
   \<and> vite_middleware sample_platform ''/api/fs'' ''/srv/data''
       \<lparr>req_method = ''GET'', url = ''/api/fs/nope?x=1'', headers = [], chunks = [], stream_error = None\<rparr>
       empty_world = (Some not_found, empty_world)
   \<and> withfs_server sample_platform \<lparr>apiPrefix = ''/api/fs'', justFs = True, BASE_DIR = ''/srv/data''\<rparr>
       (\<lambda>req w. (Inr not_found, w))
       \<lparr>req_method = ''GET'', url = ''/api/fs/nope?x=1'', headers = [], chunks = [], stream_error = None\<rparr>
       empty_world = (with_cors not_found, empty_world)"
proof -
  let ?req = "\<lparr>req_method = ''GET'', url = ''/api/fs/nope?x=1'', headers = [], chunks = [], stream_error = None\<rparr>"
  have pre: "startsWith (url ?req) ''/api/fs''"
    by (simp add: startsWith_def)
  have rp: "route_part (routePath_of ''/api/fs'' ?req) = ''/nope''"
    by (simp add: route_part_def routePath_of_def)
  have nk0: "(''GET'', ''/nope'') \<notin> set spec_route_table"
    by (simp add: spec_route_table_def)
  then have nk: "(req_method ?req, route_part (routePath_of ''/api/fs'' ?req)) \<notin> set spec_route_table"
    by (simp add: rp)
  show ?thesis
    using pre nk0
      C9_unmatched_route [OF pre nk, of sample_platform "''/srv/data''" empty_world True
        "\<lambda>req w. (Inr not_found, w)"]
    by simp
qed

subsection \<open>Exceptions at the dispatch boundary\<close>

text \<open>
  Where the exceptions of an operation come from: the path resolver, \<^verbatim>\<open>JSON.parse\<close> of the body,
  and the filesystem primitive. Each leaves the handler as an exception.
\<close>

lemma query_path_rejected:
  assumes "map_of (createFsHandlers pf baseDir) k = Some handler"
    and "k \<in> set [''GET /readFile'', ''GET /stat'', ''GET /lstat'', ''GET /realpath'', ''GET /readlink'']"
    and "createPathResolver (cwd pf) baseDir (query_prop (parseQuery pf (url req)) ''path'') = Inl e"
  shows "handler req w = (Inl e, w)"
  using assms
  by (auto simp: createFsHandlers_def GET_readFile_def GET_stat_def GET_lstat_def
        GET_realpath_def GET_readlink_def)

lemma readdir_path_rejected:
  assumes "map_of (createFsHandlers pf baseDir) k = Some handler"
    and "k = ''GET /readdir''"
    and "createPathResolver (cwd pf) baseDir
           (JStr (case parseQuery pf (url req) ''path'' of None \<Rightarrow> ''.'' | Some d \<Rightarrow> d)) = Inl e"
  shows "handler req w = (Inl e, w)"
  using assms by (auto simp: createFsHandlers_def GET_readdir_def)

lemma write_path_rejected:
  assumes "map_of (createFsHandlers pf baseDir) k = Some handler"
    and "k \<in> set [''POST /writeFile'', ''POST /appendFile'']"
    and "getRawBody req = Inr rawBody"
    and "decodeBody pf req rawBody = Decoded filePath payload ty"
    and "payload \<noteq> []"
    and "createPathResolver (cwd pf) baseDir filePath = Inl e"
  shows "handler req w = (Inl e, w)"
  using assms by (auto simp: createFsHandlers_def POST_writeFile_def POST_appendFile_def)

lemma body_path_rejected:
  assumes "map_of (createFsHandlers pf baseDir) k = Some handler"
    and "k \<in> set [''POST /mkdir'', ''DELETE /rmdir'', ''DELETE /rm'', ''DELETE /unlink'']"
    and "parseBody pf req ''path'' = Inr parsed"
    and "createPathResolver (cwd pf) baseDir (field parsed ''path'') = Inl e"
  shows "handler req w = (Inl e, w)"
  using assms
  by (auto simp: createFsHandlers_def POST_mkdir_def DELETE_rmdir_def DELETE_rm_def
        DELETE_unlink_def)

lemma copy_path_rejected:
  assumes "map_of (createFsHandlers pf baseDir) k = Some handler"
    and "k = ''POST /copyFile''"
    and "parseBody pf req ''src'' = Inr parsed"
    and "createPathResolver (cwd pf) baseDir (field parsed ''src'') = Inl e
         \<or> (\<exists>srcPath. createPathResolver (cwd pf) baseDir (field parsed ''src'') = Inr srcPath
               \<and> createPathResolver (cwd pf) baseDir (field parsed ''dest'') = Inl e)"
  shows "handler req w = (Inl e, w)"
  using assms by (auto simp: createFsHandlers_def POST_copyFile_def)

lemma rename_path_rejected:
  assumes "map_of (createFsHandlers pf baseDir) k = Some handler"
    and "k = ''PUT /rename''"
    and "parseBody pf req ''oldPath'' = Inr parsed"
    and "createPathResolver (cwd pf) baseDir (field parsed ''oldPath'') = Inl e
         \<or> (\<exists>oldFullPath. createPathResolver (cwd pf) baseDir (field parsed ''oldPath'') = Inr oldFullPath
               \<and> createPathResolver (cwd pf) baseDir (field parsed ''newPath'') = Inl e)"
  shows "handler req w = (Inl e, w)"
  using assms by (auto simp: createFsHandlers_def PUT_rename_def)

lemma body_parse_fails:
  assumes "map_of (createFsHandlers pf baseDir) k = Some handler"
    and "k \<in> set [''POST /copyFile'', ''POST /mkdir'', ''DELETE /rmdir'', ''DELETE /rm'',
                   ''PUT /rename'', ''DELETE /unlink'']"
    and "getRawBody req = Inr rawBody"
    and "JSON_parse pf (Buffer_toString pf rawBody) = Inl e"
  shows "handler req w = (Inl e, w)"
  using assms
  by (auto simp: createFsHandlers_def parseBody_def POST_copyFile_def POST_mkdir_def
        DELETE_rmdir_def DELETE_rm_def PUT_rename_def DELETE_unlink_def)

lemma structured_parse_fails:
  assumes "map_of (createFsHandlers pf baseDir) k = Some handler"
    and "k \<in> set [''POST /writeFile'', ''POST /appendFile'']"
    and "\<not> is_binary_type (content_type_of req)"
    and "\<not> str_includes (content_type_of req) ''text/plain''"
    and "str_includes (content_type_of req) ''application/json''"
    and "\<not> truthy (query_prop (parseQuery pf (url req)) ''path'')"
    and "getRawBody req = Inr rawBody"
    and "rawBody \<noteq> []"
    and "JSON_parse pf (Buffer_toString pf rawBody) = Inl e"
  shows "handler req w = (Inl e, w)"
proof -
  have "decodeBody pf req rawBody = Thrown e"
    using assms by (simp add: decodeBody_def Let_def decodeStructured_def)
  with assms(1,2,7) show ?thesis
    by (auto simp: createFsHandlers_def POST_writeFile_def POST_appendFile_def)
qed

lemma primitive_fails:
  assumes "map_of (createFsHandlers pf baseDir) k = Some handler"
    and "calls (snd (handler req w)) = calls w @ [c]"
    and "fs_exec pf c (store w) = (Inl e, st)"
  shows "handler req w = (Inl e, \<lparr>store = st, calls = calls w @ [c]\<rparr>)"
  using selected_one_call [OF assms(1), of w req] assms(2,3)
  by (rule one_call_fs_fails)

lemma listener_length: "length (fst (listener srv reqs w)) = length reqs"
proof (induction reqs arbitrary: w)
  case Nil
  show ?case by simp
next
  case (Cons req reqs)
  obtain r w' where s: "srv req w = (r, w')" by (cases "srv req w")
  obtain rs w'' where l: "listener srv reqs w' = (rs, w'')" by (cases "listener srv reqs w'")
  from Cons [of w'] l have "length rs = length reqs" by simp
  with s l show ?case by simp
qed

lemma listener_Cons:
  "srv req w = (r, w') \<Longrightarrow>
   listener srv (req # reqs) w = (r # fst (listener srv reqs w'), snd (listener srv reqs w'))"
  by (simp split: prod.splits)

lemma caught_at_boundary:
  assumes pre: "startsWith (url req) pre"
    and h: "map_of (createFsHandlers pf baseDir) (handlerKey_of pre req) = Some handler"
    and ex: "handler req w = (Inl e, w')"
  shows "vite_middleware pf pre baseDir req w = (Some (error_response e), w')
     \<and> (req_method req \<noteq> ''OPTIONS'' \<longrightarrow>
          withfs_server pf \<lparr>apiPrefix = pre, justFs = j, BASE_DIR = baseDir\<rparr> serveStaticFile req w
            = (with_cors (error_response e), w'))
     \<and> status (error_response e) = 500
     \<and> status (with_cors (error_response e)) = 500
     \<and> res_body (error_response e)
         = JObj [(''error'', JObj [(''message'', JStr (message e)), (''status'', JNum 500)])]
     \<and> res_body (with_cors (error_response e)) = res_body (error_response e)
     \<and> listener (vite_middleware pf pre baseDir) (req # reqs) w
         = (Some (error_response e) # fst (listener (vite_middleware pf pre baseDir) reqs w'),
            snd (listener (vite_middleware pf pre baseDir) reqs w'))
     \<and> (req_method req \<noteq> ''OPTIONS'' \<longrightarrow>
          listener (withfs_server pf \<lparr>apiPrefix = pre, justFs = j, BASE_DIR = baseDir\<rparr> serveStaticFile)
            (req # reqs) w
          = (with_cors (error_response e)
               # fst (listener (withfs_server pf \<lparr>apiPrefix = pre, justFs = j, BASE_DIR = baseDir\<rparr>
                        serveStaticFile) reqs w'),
             snd (listener (withfs_server pf \<lparr>apiPrefix = pre, justFs = j, BASE_DIR = baseDir\<rparr>
                        serveStaticFile) reqs w')))"
proof -
  have d: "dispatch pf pre baseDir req w = (Inl e, w')"
    using h ex by (simp add: dispatch_def)
  have v: "vite_middleware pf pre baseDir req w = (Some (error_response e), w')"
    using pre d by (simp add: vite_middleware_def)
  have s: "req_method req \<noteq> ''OPTIONS'' \<Longrightarrow>
          withfs_server pf \<lparr>apiPrefix = pre, justFs = j, BASE_DIR = baseDir\<rparr> serveStaticFile req w
            = (with_cors (error_response e), w')"
    using pre d by (simp add: withfs_server_def)
  show ?thesis
    using v s
      listener_Cons [of "vite_middleware pf pre baseDir" req w "Some (error_response e)" w' reqs]
      listener_Cons [of "withfs_server pf \<lparr>apiPrefix = pre, justFs = j, BASE_DIR = baseDir\<rparr> serveStaticFile"
        req w "with_cors (error_response e)" w' reqs]
    by (simp add: error_response_def json_response_def with_cors_def)
qed

text \<open>
  C5. Take a request under the prefix that is dispatched to an operation, and an exception
  \<open>e\<close> raised while the operation runs:
  \<^item> by path resolution: the resolver rejects the path the operation takes from the query
    (\<^verbatim>\<open>readFile\<close>, \<^verbatim>\<open>readdir\<close>, \<^verbatim>\<open>stat\<close>, \<^verbatim>\<open>lstat\<close>, \<^verbatim>\<open>realpath\<close>, \<^verbatim>\<open>readlink\<close>), from the decoded
    write (\<^verbatim>\<open>writeFile\<close>, \<^verbatim>\<open>appendFile\<close>), or from the JSON body (\<^verbatim>\<open>mkdir\<close>, \<^verbatim>\<open>rmdir\<close>, \<^verbatim>\<open>rm\<close>,
    \<^verbatim>\<open>unlink\<close>, and either path of \<^verbatim>\<open>copyFile\<close> and \<^verbatim>\<open>rename\<close>);
  \<^item> by \<^verbatim>\<open>JSON.parse\<close> of the request body, in the operations that take their parameters from
    a JSON body and in the structured body of a write or an append;
  \<^item> by the filesystem primitive \<open>c\<close> the operation invokes;
  \<^item> or any other exception with which the handler ends.
  The entry point catches it and answers with status 500 and the body
  \<^verbatim>\<open>{error: {message, status: 500}}\<close> carrying the message of \<open>e\<close>; the world is as the
  operation left it (unchanged, but for the primitive invoked), and the listener serves the
  requests that follow in that world.
\<close>

theorem C5_exception_becomes_500:
  assumes pre: "startsWith (url req) pre"
    and h: "map_of (createFsHandlers pf baseDir) (handlerKey_of pre req) = Some handler"
    and src:
      "(w' = w \<and>
        ((handlerKey_of pre req \<in> set [''GET /readFile'', ''GET /stat'', ''GET /lstat'',
                                         ''GET /realpath'', ''GET /readlink'']
          \<and> createPathResolver (cwd pf) baseDir (query_prop (parseQuery pf (url req)) ''path'') = Inl e)
         \<or> (handlerKey_of pre req = ''GET /readdir''
          \<and> createPathResolver (cwd pf) baseDir
                (JStr (case parseQuery pf (url req) ''path'' of None \<Rightarrow> ''.'' | Some d \<Rightarrow> d)) = Inl e)
         \<or> (handlerKey_of pre req \<in> set [''POST /writeFile'', ''POST /appendFile'']
          \<and> (\<exists>rawBody filePath payload ty.
                getRawBody req = Inr rawBody
                \<and> decodeBody pf req rawBody = Decoded filePath payload ty \<and> payload \<noteq> []
                \<and> createPathResolver (cwd pf) baseDir filePath = Inl e))
         \<or> (handlerKey_of pre req \<in> set [''POST /mkdir'', ''DELETE /rmdir'', ''DELETE /rm'',
                                            ''DELETE /unlink'']
          \<and> (\<exists>parsed. parseBody pf req ''path'' = Inr parsed
                \<and> createPathResolver (cwd pf) baseDir (field parsed ''path'') = Inl e))
         \<or> (handlerKey_of pre req = ''POST /copyFile''
          \<and> (\<exists>parsed. parseBody pf req ''src'' = Inr parsed
                \<and> (createPathResolver (cwd pf) baseDir (field parsed ''src'') = Inl e
                   \<or> (\<exists>srcPath. createPathResolver (cwd pf) baseDir (field parsed ''src'') = Inr srcPath
                         \<and> createPathResolver (cwd pf) baseDir (field parsed ''dest'') = Inl e))))
         \<or> (handlerKey_of pre req = ''PUT /rename''
          \<and> (\<exists>parsed. parseBody pf req ''oldPath'' = Inr parsed
                \<and> (createPathResolver (cwd pf) baseDir (field parsed ''oldPath'') = Inl e
                   \<or> (\<exists>oldFullPath.
                         createPathResolver (cwd pf) baseDir (field parsed ''oldPath'') = Inr oldFullPath
                         \<and> createPathResolver (cwd pf) baseDir (field parsed ''newPath'') = Inl e))))
         \<or> (handlerKey_of pre req \<in> set [''POST /copyFile'', ''POST /mkdir'', ''DELETE /rmdir'',
                                            ''DELETE /rm'', ''PUT /rename'', ''DELETE /unlink'']
          \<and> (\<exists>rawBody. getRawBody req = Inr rawBody
                \<and> JSON_parse pf (Buffer_toString pf rawBody) = Inl e))
         \<or> (handlerKey_of pre req \<in> set [''POST /writeFile'', ''POST /appendFile'']
          \<and> \<not> is_binary_type (content_type_of req)
          \<and> \<not> str_includes (content_type_of req) ''text/plain''
          \<and> str_includes (content_type_of req) ''application/json''
          \<and> \<not> truthy (query_prop (parseQuery pf (url req)) ''path'')
          \<and> (\<exists>rawBody. getRawBody req = Inr rawBody \<and> rawBody \<noteq> []
                \<and> JSON_parse pf (Buffer_toString pf rawBody) = Inl e))))
       \<or> (\<exists>c st. calls (snd (handler req w)) = calls w @ [c]
             \<and> fs_exec pf c (store w) = (Inl e, st)
             \<and> w' = \<lparr>store = st, calls = calls w @ [c]\<rparr>)
       \<or> handler req w = (Inl e, w')"
  shows "vite_middleware pf pre baseDir req w = (Some (error_response e), w')
     \<and> (req_method req \<noteq> ''OPTIONS'' \<longrightarrow>
          withfs_server pf \<lparr>apiPrefix = pre, justFs = j, BASE_DIR = baseDir\<rparr> serveStaticFile req w
            = (with_cors (error_response e), w'))
     \<and> status (error_response e) = 500
     \<and> status (with_cors (error_response e)) = 500
     \<and> res_body (error_response e)
         = JObj [(''error'', JObj [(''message'', JStr (message e)), (''status'', JNum 500)])]
     \<and> res_body (with_cors (error_response e)) = res_body (error_response e)
     \<and> listener (vite_middleware pf pre baseDir) (req # reqs) w
         = (Some (error_response e) # fst (listener (vite_middleware pf pre baseDir) reqs w'),
            snd (listener (vite_middleware pf pre baseDir) reqs w'))
     \<and> (req_method req \<noteq> ''OPTIONS'' \<longrightarrow>
          listener (withfs_server pf \<lparr>apiPrefix = pre, justFs = j, BASE_DIR = baseDir\<rparr> serveStaticFile)
            (req # reqs) w
          = (with_cors (error_response e)
               # fst (listener (withfs_server pf \<lparr>apiPrefix = pre, justFs = j, BASE_DIR = baseDir\<rparr>
                        serveStaticFile) reqs w'),
             snd (listener (withfs_server pf \<lparr>apiPrefix = pre, justFs = j, BASE_DIR = baseDir\<rparr>
                        serveStaticFile) reqs w')))"
proof (rule caught_at_boundary [OF pre h])
  from src show "handler req w = (Inl e, w')"
  proof (elim disjE conjE exE)
    assume "w' = w"
      "handlerKey_of pre req \<in> set [''GET /readFile'', ''GET /stat'', ''GET /lstat'',
                                      ''GET /realpath'', ''GET /readlink'']"
      "createPathResolver (cwd pf) baseDir (query_prop (parseQuery pf (url req)) ''path'') = Inl e"
    then show ?thesis using query_path_rejected [OF h] by simp
  next
    assume "w' = w" "handlerKey_of pre req = ''GET /readdir''"
      "createPathResolver (cwd pf) baseDir
                (JStr (case parseQuery pf (url req) ''path'' of None \<Rightarrow> ''.'' | Some d \<Rightarrow> d)) = Inl e"
    then show ?thesis using readdir_path_rejected [OF h] by simp
  next
    fix rawBody filePath payload ty
    assume "w' = w" "handlerKey_of pre req \<in> set [''POST /writeFile'', ''POST /appendFile'']"
      "getRawBody req = Inr rawBody" "decodeBody pf req rawBody = Decoded filePath payload ty"
      "payload \<noteq> []" "createPathResolver (cwd pf) baseDir filePath = Inl e"
    then show ?thesis using write_path_rejected [OF h] by simp
  next
    fix parsed
    assume "w' = w" "handlerKey_of pre req \<in> set [''POST /mkdir'', ''DELETE /rmdir'', ''DELETE /rm'',
                                            ''DELETE /unlink'']"
      "parseBody pf req ''path'' = Inr parsed"
      "createPathResolver (cwd pf) baseDir (field parsed ''path'') = Inl e"
    then show ?thesis using body_path_rejected [OF h] by simp
  next
    fix parsed
    assume "w' = w" "handlerKey_of pre req = ''POST /copyFile''"
      "parseBody pf req ''src'' = Inr parsed"
      "createPathResolver (cwd pf) baseDir (field parsed ''src'') = Inl e"
    then show ?thesis using copy_path_rejected [OF h, where parsed = parsed and e = e and req = req and w = w] by simp
  next
    fix parsed srcPath
    assume "w' = w" "handlerKey_of pre req = ''POST /copyFile''"
      "parseBody pf req ''src'' = Inr parsed"
      "createPathResolver (cwd pf) baseDir (field parsed ''src'') = Inr srcPath"
      "createPathResolver (cwd pf) baseDir (field parsed ''dest'') = Inl e"
    then show ?thesis using copy_path_rejected [OF h, where parsed = parsed and e = e and req = req and w = w] by simp
  next
    fix parsed
    assume "w' = w" "handlerKey_of pre req = ''PUT /rename''"
      "parseBody pf req ''oldPath'' = Inr parsed"
      "createPathResolver (cwd pf) baseDir (field parsed ''oldPath'') = Inl e"
    then show ?thesis using rename_path_rejected [OF h, where parsed = parsed and e = e and req = req and w = w] by simp
  next
    fix parsed oldFullPath
    assume "w' = w" "handlerKey_of pre req = ''PUT /rename''"
      "parseBody pf req ''oldPath'' = Inr parsed"
      "createPathResolver (cwd pf) baseDir (field parsed ''oldPath'') = Inr oldFullPath"
      "createPathResolver (cwd pf) baseDir (field parsed ''newPath'') = Inl e"
    then show ?thesis using rename_path_rejected [OF h, where parsed = parsed and e = e and req = req and w = w] by simp
  next
    fix rawBody
    assume "w' = w" "handlerKey_of pre req \<in> set [''POST /copyFile'', ''POST /mkdir'', ''DELETE /rmdir'',
                                            ''DELETE /rm'', ''PUT /rename'', ''DELETE /unlink'']"
      "getRawBody req = Inr rawBody" "JSON_parse pf (Buffer_toString pf rawBody) = Inl e"
    then show ?thesis using body_parse_fails [OF h] by simp
  next
    fix rawBody
    assume "w' = w" "handlerKey_of pre req \<in> set [''POST /writeFile'', ''POST /appendFile'']"
      "\<not> is_binary_type (content_type_of req)"
      "\<not> str_includes (content_type_of req) ''text/plain''"
      "str_includes (content_type_of req) ''application/json''"
      "\<not> truthy (query_prop (parseQuery pf (url req)) ''path'')"
      "getRawBody req = Inr rawBody" "rawBody \<noteq> []"
      "JSON_parse pf (Buffer_toString pf rawBody) = Inl e"
    then show ?thesis using structured_parse_fails [OF h] by simp
  next
    fix c st
    assume "calls (snd (handler req w)) = calls w @ [c]" "fs_exec pf c (store w) = (Inl e, st)"
      "w' = \<lparr>store = st, calls = calls w @ [c]\<rparr>"
    then show ?thesis using primitive_fails [OF h] by simp
  next
    assume "handler req w = (Inl e, w')"
    then show ?thesis .
  qed
qed

theorem C5_exception_becomes_500_witness:
  "createPathResolver (cwd sample_platform) ''/srv/data'' (JStr ''../../etc/passwd'')
     = Inl (Error ''Invalid path: outside base directory'')
   \<and> vite_middleware sample_platform ''/api/fs'' ''/srv/data''
       \<lparr>req_method = ''GET'', url = ''/api/fs/readFile?path=../../etc/passwd'', headers = [],
        chunks = [], stream_error = None\<rparr> empty_world
       = (Some (error_response (Error ''Invalid path: outside base directory'')), empty_world)
   \<and> JSON_parse sample_platform ''{oops'' = Inl (Error ''Unexpected token'')
   \<and> vite_middleware sample_platform ''/api/fs'' ''/srv/data''
       \<lparr>req_method = ''POST'', url = ''/api/fs/mkdir'', headers = [],
        chunks = [''{oops''], stream_error = None\<rparr> empty_world
       = (Some (error_response (Error ''Unexpected token'')), empty_world)
   \<and> fs_exec sample_platform (ReadFile ''/srv/data/missing.txt'' ''utf8'') []
       = (Inl (Error ''ENOENT: no such file or directory''), [])
   \<and> vite_middleware sample_platform ''/api/fs'' ''/srv/data''
       \<lparr>req_method = ''GET'', url = ''/api/fs/readFile?path=missing.txt'', headers = [],
        chunks = [], stream_error = None\<rparr> empty_world
       = (Some (error_response (Error ''ENOENT: no such file or directory'')),
          \<lparr>store = [], calls = [ReadFile ''/srv/data/missing.txt'' ''utf8'']\<rparr>)
   \<and> res_body (error_response (Error ''Invalid path: outside base directory''))
       = JObj [(''error'', JObj [(''message'', JStr ''Invalid path: outside base directory''),
                                 (''status'', JNum 500)])]"
proof -
  let ?r1 = "\<lparr>req_method = ''GET'', url = ''/api/fs/readFile?path=../../etc/passwd'', headers = [],
        chunks = [], stream_error = None\<rparr>"
  let ?r2 = "\<lparr>req_method = ''POST'', url = ''/api/fs/mkdir'', headers = [],
        chunks = [''{oops''], stream_error = None\<rparr>"
  let ?r3 = "\<lparr>req_method = ''GET'', url = ''/api/fs/readFile?path=missing.txt'', headers = [],
        chunks = [], stream_error = None\<rparr>"
  let ?e1 = "Error ''Invalid path: outside base directory''"
  let ?e2 = "Error ''Unexpected token''"
  let ?e3 = "Error ''ENOENT: no such file or directory''"
  let ?c = "ReadFile ''/srv/data/missing.txt'' ''utf8''"
  have pre: "startsWith (url ?r1) ''/api/fs''" "startsWith (url ?r2) ''/api/fs''"
      "startsWith (url ?r3) ''/api/fs''"
    by (simp_all add: startsWith_def)
  have k: "handlerKey_of ''/api/fs'' ?r1 = ''GET /readFile''"
      "handlerKey_of ''/api/fs'' ?r2 = ''POST /mkdir''"
      "handlerKey_of ''/api/fs'' ?r3 = ''GET /readFile''"
    by (simp_all add: handlerKey_of_def routePath_of_def route_part_def)
  have h1: "map_of (createFsHandlers sample_platform ''/srv/data'') (handlerKey_of ''/api/fs'' ?r1)
       = Some (GET_readFile sample_platform ''/srv/data'')"
    unfolding k by (simp add: createFsHandlers_def)
  have h2: "map_of (createFsHandlers sample_platform ''/srv/data'') (handlerKey_of ''/api/fs'' ?r2)
       = Some (POST_mkdir sample_platform ''/srv/data'')"
    unfolding k by (simp add: createFsHandlers_def)
  have h3: "map_of (createFsHandlers sample_platform ''/srv/data'') (handlerKey_of ''/api/fs'' ?r3)
       = Some (GET_readFile sample_platform ''/srv/data'')"
    unfolding k by (simp add: createFsHandlers_def)
  have q1: "query_prop (parseQuery sample_platform (url ?r1)) ''path'' = JStr ''../../etc/passwd''"
    by (simp add: parseQuery_def query_prop_def sample_platform_def sample_URLSearchParams_def
          name_value_def)
  have s1: "createPathResolver (cwd sample_platform) ''/srv/data'' (JStr ''../../etc/passwd'') = Inl ?e1"
    by (simp add: createPathResolver_def path_resolve_def startsWith_def sample_platform_def)
  have s2: "getRawBody ?r2 = Inr ''{oops''"
      "JSON_parse sample_platform (Buffer_toString sample_platform ''{oops'') = Inl ?e2"
    by (simp_all add: getRawBody_def sample_platform_def sample_JSON_parse_def sample_texts_def
          john_text_def)
  have s3: "calls (snd (GET_readFile sample_platform ''/srv/data'' ?r3 empty_world))
              = calls empty_world @ [?c]"
      "fs_exec sample_platform ?c (store empty_world) = (Inl ?e3, [])"
    by (simp_all add: GET_readFile_def parseQuery_def query_prop_def createPathResolver_def
          path_resolve_def startsWith_def call_fs_def invoke_def empty_world_def
          sample_platform_def sample_fs_def sample_URLSearchParams_def name_value_def)
  have c1: "vite_middleware sample_platform ''/api/fs'' ''/srv/data'' ?r1 empty_world
              = (Some (error_response ?e1), empty_world)"
    using C5_exception_becomes_500 [OF pre(1) h1, of empty_world empty_world ?e1 True
        "\<lambda>req w. (Inr not_found, w)" "[]"] k(1) q1 s1
    by simp
  have c2: "vite_middleware sample_platform ''/api/fs'' ''/srv/data'' ?r2 empty_world
              = (Some (error_response ?e2), empty_world)"
    using C5_exception_becomes_500 [OF pre(2) h2, of empty_world empty_world ?e2 True
        "\<lambda>req w. (Inr not_found, w)" "[]"] k(2) s2
    by simp
  have c3: "vite_middleware sample_platform ''/api/fs'' ''/srv/data'' ?r3 empty_world
              = (Some (error_response ?e3), \<lparr>store = [], calls = [?c]\<rparr>)"
    using C5_exception_becomes_500 [OF pre(3) h3,
        of "\<lparr>store = [], calls = [?c]\<rparr>" empty_world ?e3 True
        "\<lambda>req w. (Inr not_found, w)" "[]"] s3
    by (simp add: empty_world_def)
  have b: "res_body (error_response ?e1)
       = JObj [(''error'', JObj [(''message'', JStr ''Invalid path: outside base directory''),
                                 (''status'', JNum 500)])]"
    by (simp add: error_response_def json_response_def)
  show ?thesis
    using s1 s2(2) s3(2) c1 c2 c3 b by (simp add: sample_platform_def empty_world_def)
qed

subsection \<open>Listing a directory\<close>

lemma resolve_dot:
  assumes "is_resolved base"
  shows "createPathResolver wd base (JStr ''.'') = Inr base"
proof -
  from assms obtain ts where base: "base = ''/'' @ join_sep ts"
    and nts: "normalizeString False [] (split_sep (CHR ''/'') base) = ts"
    by (rule is_resolved_shape)
  from assms have sw: "startsWith base ''/''" and ne: "base \<noteq> []"
    by (auto simp: is_resolved_def startsWith_def)
  have rl: "resolve_loop [''.'', base, wd] [] = (base @ ''/./'', True)"
    using sw ne by (simp add: startsWith_def)
  have "split_sep (CHR ''/'') (base @ ''/./'') = split_sep (CHR ''/'') base @ split_sep (CHR ''/'') ''./''"
    using split_sep_append [of "CHR ''/''" base "''./''"] by simp
  then have sp: "split_sep (CHR ''/'') (base @ ''/./'') = split_sep (CHR ''/'') base @ [''.'', []]"
    by simp
  have "path_resolve wd [base, ''.''] = ''/'' @ join_sep ts"
    using rl by (simp add: path_resolve_def sp normalizeString_append nts)
  with base have "path_resolve wd [base, ''.''] = base" by simp
  then show ?thesis
    by (simp add: createPathResolver_def startsWith_def)
qed

text \<open>
  C10. \<^verbatim>\<open>GET /readdir\<close> invokes at most one primitive, \<^verbatim>\<open>fs.readdir\<close>, and asks it
  for the listing with file types exactly when the \<^verbatim>\<open>withFileTypes\<close> query parameter is the
  string \<^verbatim>\<open>true\<close>; for any other value, and when the parameter is absent, it asks for plain
  names. The response carries, as \<^verbatim>\<open>files\<close>, the listing the primitive returned for that
  request (or the handler ends with the exception of the resolver or of the primitive). When
  the \<^verbatim>\<open>path\<close> parameter is absent the directory listed is \<^verbatim>\<open>.\<close>, which resolves to the
  confinement root.
\<close>

theorem C10_readdir_flags:
  "calls (snd (GET_readdir pf baseDir req w))
     = calls w @
       (case createPathResolver (cwd pf) baseDir
               (JStr (case parseQuery pf (url req) ''path'' of None \<Rightarrow> ''.'' | Some d \<Rightarrow> d)) of
          Inl e \<Rightarrow> []
        | Inr fullPath \<Rightarrow> [Readdir fullPath (parseQuery pf (url req) ''withFileTypes'' = Some ''true'')])
   \<and> (is_resolved baseDir \<and> parseQuery pf (url req) ''path'' = None \<longrightarrow>
        calls (snd (GET_readdir pf baseDir req w))
          = calls w @ [Readdir baseDir (parseQuery pf (url req) ''withFileTypes'' = Some ''true'')])
   \<and> GET_readdir pf baseDir req w
     = (case createPathResolver (cwd pf) baseDir
               (JStr (case parseQuery pf (url req) ''path'' of None \<Rightarrow> ''.'' | Some d \<Rightarrow> d)) of
          Inl e \<Rightarrow> (Inl e, w)
        | Inr fullPath \<Rightarrow>
            (case fs_exec pf (Readdir fullPath (parseQuery pf (url req) ''withFileTypes'' = Some ''true''))
                    (store w) of
               (Inl e, st) \<Rightarrow>
                 (Inl e, \<lparr>store = st, calls = calls w @
                    [Readdir fullPath (parseQuery pf (url req) ''withFileTypes'' = Some ''true'')]\<rparr>)
             | (Inr files, st) \<Rightarrow>
                 (Inr (json_response 200 (JObj [(''files'', files)])),
                  \<lparr>store = st, calls = calls w @
                    [Readdir fullPath (parseQuery pf (url req) ''withFileTypes'' = Some ''true'')]\<rparr>)))
   \<and> (is_resolved baseDir \<and> parseQuery pf (url req) ''path'' = None \<longrightarrow>
        GET_readdir pf baseDir req w
        = (case fs_exec pf (Readdir baseDir (parseQuery pf (url req) ''withFileTypes'' = Some ''true''))
                  (store w) of
             (Inl e, st) \<Rightarrow>
               (Inl e, \<lparr>store = st, calls = calls w @
                  [Readdir baseDir (parseQuery pf (url req) ''withFileTypes'' = Some ''true'')]\<rparr>)
           | (Inr files, st) \<Rightarrow>
               (Inr (json_response 200 (JObj [(''files'', files)])),
                \<lparr>store = st, calls = calls w @
                  [Readdir baseDir (parseQuery pf (url req) ''withFileTypes'' = Some ''true'')]\<rparr>)))"
proof -
  have flag: "((case parseQuery pf (url req) ''withFileTypes'' of None \<Rightarrow> ''false'' | Some t \<Rightarrow> t) = ''true'')
              = (parseQuery pf (url req) ''withFileTypes'' = Some ''true'')"
    by (cases "parseQuery pf (url req) ''withFileTypes''") auto
  have whole: "GET_readdir pf baseDir req w
     = (case createPathResolver (cwd pf) baseDir
               (JStr (case parseQuery pf (url req) ''path'' of None \<Rightarrow> ''.'' | Some d \<Rightarrow> d)) of
          Inl e \<Rightarrow> (Inl e, w)
        | Inr fullPath \<Rightarrow>
            (case fs_exec pf (Readdir fullPath (parseQuery pf (url req) ''withFileTypes'' = Some ''true''))
                    (store w) of
               (Inl e, st) \<Rightarrow>
                 (Inl e, \<lparr>store = st, calls = calls w @
                    [Readdir fullPath (parseQuery pf (url req) ''withFileTypes'' = Some ''true'')]\<rparr>)
             | (Inr files, st) \<Rightarrow>
                 (Inr (json_response 200 (JObj [(''files'', files)])),
                  \<lparr>store = st, calls = calls w @
                    [Readdir fullPath (parseQuery pf (url req) ''withFileTypes'' = Some ''true'')]\<rparr>)))"
    unfolding GET_readdir_def Let_def flag
    by (auto simp: call_fs_def invoke_def split: sum.splits prod.splits)
  have first: "calls (snd (GET_readdir pf baseDir req w))
     = calls w @
       (case createPathResolver (cwd pf) baseDir
               (JStr (case parseQuery pf (url req) ''path'' of None \<Rightarrow> ''.'' | Some d \<Rightarrow> d)) of
          Inl e \<Rightarrow> []
        | Inr fullPath \<Rightarrow> [Readdir fullPath (parseQuery pf (url req) ''withFileTypes'' = Some ''true'')])"
    unfolding whole by (auto split: sum.splits prod.splits)
  have dot: "is_resolved baseDir \<Longrightarrow> createPathResolver (cwd pf) baseDir (JStr ''.'') = Inr baseDir"
    by (rule resolve_dot)
  have third: "is_resolved baseDir \<and> parseQuery pf (url req) ''path'' = None \<longrightarrow>
        calls (snd (GET_readdir pf baseDir req w))
          = calls w @ [Readdir baseDir (parseQuery pf (url req) ''withFileTypes'' = Some ''true'')]"
    using first dot by simp
  have fourth: "is_resolved baseDir \<and> parseQuery pf (url req) ''path'' = None \<longrightarrow>
        GET_readdir pf baseDir req w
        = (case fs_exec pf (Readdir baseDir (parseQuery pf (url req) ''withFileTypes'' = Some ''true''))
                  (store w) of
             (Inl e, st) \<Rightarrow>
               (Inl e, \<lparr>store = st, calls = calls w @
                  [Readdir baseDir (parseQuery pf (url req) ''withFileTypes'' = Some ''true'')]\<rparr>)
           | (Inr files, st) \<Rightarrow>
               (Inr (json_response 200 (JObj [(''files'', files)])),
                \<lparr>store = st, calls = calls w @
                  [Readdir baseDir (parseQuery pf (url req) ''withFileTypes'' = Some ''true'')]\<rparr>))"
    using whole dot by simp
  from first third whole fourth show ?thesis by (intro conjI)
qed

theorem C10_readdir_flags_witness:
  "is_resolved ''/srv/data''
   \<and> parseQuery sample_platform ''/api/fs/readdir?withFileTypes=True'' ''path'' = None
   \<and> calls (snd (GET_readdir sample_platform ''/srv/data''
        \<lparr>req_method = ''GET'', url = ''/api/fs/readdir?withFileTypes=True'', headers = [], chunks = [],
         stream_error = None\<rparr> empty_world))
      = [Readdir ''/srv/data'' False]
   \<and> calls (snd (GET_readdir sample_platform ''/srv/data''
        \<lparr>req_method = ''GET'', url = ''/api/fs/readdir?withFileTypes=true'', headers = [], chunks = [],
         stream_error = None\<rparr> empty_world))
      = [Readdir ''/srv/data'' True]
   \<and> calls (snd (GET_readdir sample_platform ''/srv/data''
        \<lparr>req_method = ''GET'', url = ''/api/fs/readdir?withFileTypes='', headers = [], chunks = [],
         stream_error = None\<rparr> empty_world))
      = [Readdir ''/srv/data'' False]
   \<and> calls (snd (GET_readdir sample_platform ''/srv/data''
        \<lparr>req_method = ''GET'', url = ''/api/fs/readdir'', headers = [], chunks = [],
         stream_error = None\<rparr> empty_world))
      = [Readdir ''/srv/data'' False]
   \<and> fst (GET_readdir
          (sample_platform\<lparr>fs_exec := \<lambda>c st.
             (Inr (if c = Readdir ''/srv/data'' True
                   then JArr [JObj [(''name'', JStr ''a.txt'')]] else JArr [JStr ''a.txt'']), st)\<rparr>)
          ''/srv/data''
          \<lparr>req_method = ''GET'', url = ''/api/fs/readdir?withFileTypes=true'', headers = [], chunks = [],
           stream_error = None\<rparr> empty_world)
      = Inr (json_response 200 (JObj [(''files'', JArr [JObj [(''name'', JStr ''a.txt'')]])]))
   \<and> fst (GET_readdir
          (sample_platform\<lparr>fs_exec := \<lambda>c st.
             (Inr (if c = Readdir ''/srv/data'' True
                   then JArr [JObj [(''name'', JStr ''a.txt'')]] else JArr [JStr ''a.txt'']), st)\<rparr>)
          ''/srv/data''
          \<lparr>req_method = ''GET'', url = ''/api/fs/readdir?withFileTypes=1'', headers = [], chunks = [],
           stream_error = None\<rparr> empty_world)
      = Inr (json_response 200 (JObj [(''files'', JArr [JStr ''a.txt''])]))"
proof -
  let ?r1 = "\<lparr>req_method = ''GET'', url = ''/api/fs/readdir?withFileTypes=True'', headers = [], chunks = [],
         stream_error = None\<rparr>"
  let ?r2 = "\<lparr>req_method = ''GET'', url = ''/api/fs/readdir?withFileTypes=true'', headers = [], chunks = [],
         stream_error = None\<rparr>"
  let ?r3 = "\<lparr>req_method = ''GET'', url = ''/api/fs/readdir?withFileTypes='', headers = [], chunks = [],
         stream_error = None\<rparr>"
  let ?r4 = "\<lparr>req_method = ''GET'', url = ''/api/fs/readdir'', headers = [], chunks = [],
         stream_error = None\<rparr>"
  let ?r5 = "\<lparr>req_method = ''GET'', url = ''/api/fs/readdir?withFileTypes=1'', headers = [], chunks = [],
         stream_error = None\<rparr>"
  let ?lp = "sample_platform\<lparr>fs_exec := \<lambda>c st.
             (Inr (if c = Readdir ''/srv/data'' True
                   then JArr [JObj [(''name'', JStr ''a.txt'')]] else JArr [JStr ''a.txt'']), st)\<rparr>"
  have b: "is_resolved ''/srv/data''"
    by (simp add: is_resolved_def path_resolve_def startsWith_def)
  have q: "parseQuery sample_platform (url ?r1) ''path'' = None"
      "parseQuery sample_platform (url ?r2) ''path'' = None"
      "parseQuery sample_platform (url ?r3) ''path'' = None"
      "parseQuery sample_platform (url ?r4) ''path'' = None"
      "parseQuery sample_platform (url ?r1) ''withFileTypes'' = Some ''True''"
      "parseQuery sample_platform (url ?r2) ''withFileTypes'' = Some ''true''"
      "parseQuery sample_platform (url ?r3) ''withFileTypes'' = Some []"
      "parseQuery sample_platform (url ?r4) ''withFileTypes'' = None"
    by (simp_all add: parseQuery_def sample_platform_def sample_URLSearchParams_def name_value_def)
  have ql: "parseQuery ?lp (url ?r2) ''path'' = None"
      "parseQuery ?lp (url ?r5) ''path'' = None"
      "parseQuery ?lp (url ?r2) ''withFileTypes'' = Some ''true''"
      "parseQuery ?lp (url ?r5) ''withFileTypes'' = Some ''1''"
    by (simp_all add: parseQuery_def sample_platform_def sample_URLSearchParams_def name_value_def)
  have c1: "calls (snd (GET_readdir sample_platform ''/srv/data'' ?r1 empty_world)) = [Readdir ''/srv/data'' False]"
    using C10_readdir_flags [of sample_platform "''/srv/data''" ?r1 empty_world,
        THEN conjunct2, THEN conjunct1] b q(1,5)
    by (simp add: empty_world_def)
  have c2: "calls (snd (GET_readdir sample_platform ''/srv/data'' ?r2 empty_world)) = [Readdir ''/srv/data'' True]"
    using C10_readdir_flags [of sample_platform "''/srv/data''" ?r2 empty_world,
        THEN conjunct2, THEN conjunct1] b q(2,6)
    by (simp add: empty_world_def)
  have c3: "calls (snd (GET_readdir sample_platform ''/srv/data'' ?r3 empty_world)) = [Readdir ''/srv/data'' False]"
    using C10_readdir_flags [of sample_platform "''/srv/data''" ?r3 empty_world,
        THEN conjunct2, THEN conjunct1] b q(3,7)
    by (simp add: empty_world_def)
  have c4: "calls (snd (GET_readdir sample_platform ''/srv/data'' ?r4 empty_world)) = [Readdir ''/srv/data'' False]"
    using C10_readdir_flags [of sample_platform "''/srv/data''" ?r4 empty_world,
        THEN conjunct2, THEN conjunct1] b q(4,8)
    by (simp add: empty_world_def)
  have c5: "fst (GET_readdir ?lp ''/srv/data'' ?r2 empty_world)
      = Inr (json_response 200 (JObj [(''files'', JArr [JObj [(''name'', JStr ''a.txt'')]])]))"
    using C10_readdir_flags [of ?lp "''/srv/data''" ?r2 empty_world,
        THEN conjunct2, THEN conjunct2, THEN conjunct2] b ql(1,3)
    by simp
  have c6: "fst (GET_readdir ?lp ''/srv/data'' ?r5 empty_world)
      = Inr (json_response 200 (JObj [(''files'', JArr [JStr ''a.txt''])]))"
    using C10_readdir_flags [of ?lp "''/srv/data''" ?r5 empty_world,
        THEN conjunct2, THEN conjunct2, THEN conjunct2] b ql(2,4)
    by simp
  from b q(1) c1 c2 c3 c4 c5 c6 show ?thesis by simp
qed


end
